theory Spec2Isabelle
  imports Main "HOL-Library.Word" "HOL-Library.AList"
begin

section \<open>Go values used by the handlers\<close>

text \<open>
  Go's \<open>int\<close> is 64 bits wide on the platforms sysbox-fs runs on. The handlers only
  parse, compare and print such integers, so they are modelled as \<open>int\<close> with the
  range check of \<open>strconv.Atoi\<close> written out. A Go \<open>string\<close> or \<open>[]byte\<close> is a list
  of bytes (\<open>string\<close>); a caller PID is a \<open>uint32\<close>.
\<close>

type_synonym pid = "32 word"

datatype errno = EACCES | EIO

text \<open>
  The error values the handlers return: \<open>io.EOF\<close>, the \<open>*strconv.NumError\<close> of a failed
  \<open>Atoi\<close> (syntax and range errors are not told apart), \<open>errors.New("Container not found")\<close>,
  \<open>fuse.IOerror{Code: c}\<close>, an error raised by the host I/O node, and the panic of an
  out-of-range slice expression.
\<close>

datatype go_error =
    EOF
  | NumError
  | ContainerNotFound
  | IOerror errno
  | HostError
  | HandlerNotFound
  | SlicePanic

subsection \<open>\<open>strings.TrimSpace\<close>\<close>

text \<open>
  \<open>strings.TrimSpace\<close> removes leading and trailing white space as defined by Unicode.
  On the bytes of a string these are the six ASCII characters tab, line feed, vertical tab, form feed,
  carriage return and space, and the
  UTF-8 encodings of U+0085, U+00A0, U+1680, U+2000 to U+200A, U+2028, U+2029, U+202F,
  U+205F and U+3000.
\<close>

definition whiteSpace :: "string list" where
  "whiteSpace =
    [[CHR 0x09], [CHR 0x0A], [CHR 0x0B], [CHR 0x0C], [CHR 0x0D], [CHR 0x20],
     [CHR 0xC2, CHR 0x85], [CHR 0xC2, CHR 0xA0],
     [CHR 0xE1, CHR 0x9A, CHR 0x80],
     [CHR 0xE2, CHR 0x80, CHR 0x80], [CHR 0xE2, CHR 0x80, CHR 0x81],
     [CHR 0xE2, CHR 0x80, CHR 0x82], [CHR 0xE2, CHR 0x80, CHR 0x83],
     [CHR 0xE2, CHR 0x80, CHR 0x84], [CHR 0xE2, CHR 0x80, CHR 0x85],
     [CHR 0xE2, CHR 0x80, CHR 0x86], [CHR 0xE2, CHR 0x80, CHR 0x87],
     [CHR 0xE2, CHR 0x80, CHR 0x88], [CHR 0xE2, CHR 0x80, CHR 0x89],
     [CHR 0xE2, CHR 0x80, CHR 0x8A],
     [CHR 0xE2, CHR 0x80, CHR 0xA8], [CHR 0xE2, CHR 0x80, CHR 0xA9],
     [CHR 0xE2, CHR 0x80, CHR 0xAF],
     [CHR 0xE2, CHR 0x81, CHR 0x9F],
     [CHR 0xE3, CHR 0x80, CHR 0x80]]"

text \<open>The rest of \<open>s\<close> after the first of the sequences \<open>ws\<close> that starts it, if any.\<close>

fun stripPrefixOf :: "string list \<Rightarrow> string \<Rightarrow> string option" where
  "stripPrefixOf [] s = None"
| "stripPrefixOf (w # ws) s =
     (if w \<noteq> [] \<and> take (length w) s = w then Some (drop (length w) s)
      else stripPrefixOf ws s)"

lemma stripPrefixOf_shorter: "stripPrefixOf ws s = Some r \<Longrightarrow> length r < length s"
proof (induction ws)
  case Nil
  then show ?case by simp
next
  case (Cons w ws)
  show ?case
  proof (cases "w \<noteq> [] \<and> take (length w) s = w")
    case True
    then have "s \<noteq> []" by auto
    moreover from True Cons.prems have "r = drop (length w) s" by simp
    ultimately show ?thesis using True by (cases w) auto
  next
    case False
    with Cons show ?thesis by auto
  qed
qed

function trimLeading :: "string list \<Rightarrow> string \<Rightarrow> string" where
  "trimLeading ws s =
     (case stripPrefixOf ws s of None \<Rightarrow> s | Some r \<Rightarrow> trimLeading ws r)"
  by pat_completeness auto
termination
  by (relation "measure (\<lambda>(ws, s). length s)") (auto dest: stripPrefixOf_shorter)

declare trimLeading.simps [simp del]

definition TrimSpace :: "string \<Rightarrow> string" where
  "TrimSpace s =
     rev (trimLeading (map rev whiteSpace) (rev (trimLeading whiteSpace s)))"

subsection \<open>\<open>strconv.Atoi\<close> and \<open>strconv.Itoa\<close>\<close>

definition isDigit :: "char \<Rightarrow> bool" where
  "isDigit c = (48 \<le> (of_char c :: nat) \<and> (of_char c :: nat) \<le> 57)"

definition digitVal :: "char \<Rightarrow> int" where
  "digitVal c = int (of_char c) - 48"

definition digitsVal :: "string \<Rightarrow> int" where
  "digitsVal ds = foldl (\<lambda>n ch. n * 10 + digitVal ch) 0 ds"

definition minInt :: int where
  "minInt = - (2 ^ 63)"

definition maxInt :: int where
  "maxInt = 2 ^ 63 - 1"

text \<open>
  \<open>Atoi\<close> accepts one optional sign followed by at least one decimal digit, and fails
  when the value does not fit Go's \<open>int\<close>.
\<close>

definition Atoi :: "string \<Rightarrow> go_error + int" where
  "Atoi s =
     (let neg = (s \<noteq> [] \<and> hd s = CHR ''-'');
          ds = (if s \<noteq> [] \<and> (hd s = CHR ''-'' \<or> hd s = CHR ''+'') then tl s else s)
      in if ds = [] \<or> \<not> list_all isDigit ds then Inl NumError
         else let n = (if neg then - digitsVal ds else digitsVal ds)
              in if n < minInt \<or> maxInt < n then Inl NumError else Inr n)"

function natDigits :: "nat \<Rightarrow> string" where
  "natDigits n =
     (if n < 10 then [char_of (48 + n)]
      else natDigits (n div 10) @ [char_of (48 + n mod 10)])"
  by pat_completeness auto
termination
  by (relation "measure id") auto

declare natDigits.simps [simp del]

definition Itoa :: "int \<Rightarrow> string" where
  "Itoa i = (if i < 0 then CHR ''-'' # natDigits (nat (- i)) else natDigits (nat i))"

section \<open>The I/O node and the container state\<close>

text \<open>
  Modelled from the spec: the I/O node (\<open>domain.IOnode\<close>), an interface whose
  implementation is not part of the handlers' package. It wraps one host pseudo-file:
  \<open>read_line\<close> reads up to the first newline and returns the trimmed string, with
  \<open>EOF\<close> on an empty read; \<open>write\<close> after \<open>seek_reset\<close> sets the value of the
  kernel tunable behind the file. Whether a host operation fails is not decided by the
  handlers, so each node carries one switch per operation.
\<close>

definition O_RDONLY :: int where "O_RDONLY = 0"
definition O_WRONLY :: int where "O_WRONLY = 1"
definition O_RDWR :: int where "O_RDWR = 2"

record ionode =
  io_name :: string
  io_path :: string
  io_flags :: int
  io_opened :: bool
  io_content :: string
  open_fails :: bool
  read_fails :: bool
  seek_fails :: bool
  write_fails :: bool

definition OpenFlags :: "ionode \<Rightarrow> int" where
  "OpenFlags n = io_flags n"

definition SetOpenFlags :: "ionode \<Rightarrow> int \<Rightarrow> ionode" where
  "SetOpenFlags n f = n\<lparr>io_flags := f\<rparr>"

definition io_Open :: "ionode \<Rightarrow> go_error option \<times> ionode" where
  "io_Open n = (if open_fails n then (Some HostError, n) else (None, n\<lparr>io_opened := True\<rparr>))"

definition ReadLine :: "ionode \<Rightarrow> string \<times> go_error option" where
  "ReadLine n =
     (if read_fails n then ([], Some HostError)
      else if io_content n = [] then ([], Some EOF)
      else (TrimSpace (takeWhile (\<lambda>c. c \<noteq> CHR 0x0A) (io_content n)), None))"

definition SeekReset :: "ionode \<Rightarrow> go_error option \<times> ionode" where
  "SeekReset n = (if seek_fails n then (Some HostError, n) else (None, n))"

definition io_Write :: "ionode \<Rightarrow> string \<Rightarrow> nat \<times> go_error option \<times> ionode" where
  "io_Write n msg =
     (if write_fails n then (0, Some HostError, n)
      else (length msg, None, n\<lparr>io_content := msg\<rparr>))"

text \<open>
  Modelled from the spec: the container registry (\<open>domain.ContainerStateService\<close> and
  \<open>domain.ContainerIface\<close>), consumed through \<open>lookup_by_pid\<close>, \<open>data_get\<close> and
  \<open>data_set\<close>. A container is named by its ID; its resource map takes
  \<open>(virtual_dir, virtual_file)\<close> to a string.
\<close>

record cntr_state =
  byPid :: "pid \<Rightarrow> string option"
  cntrData :: "string \<Rightarrow> (string \<times> string) \<Rightarrow> string option"

definition ContainerLookupByPid :: "cntr_state \<Rightarrow> pid \<Rightarrow> string option" where
  "ContainerLookupByPid css p = byPid css p"

definition Data :: "cntr_state \<Rightarrow> string \<Rightarrow> string \<Rightarrow> string \<Rightarrow> string option" where
  "Data css cntr path name = cntrData css cntr (path, name)"

definition SetData :: "cntr_state \<Rightarrow> string \<Rightarrow> string \<Rightarrow> string \<Rightarrow> string \<Rightarrow> cntr_state" where
  "SetData css cntr path name v =
     css\<lparr>cntrData := (cntrData css)(cntr := (cntrData css cntr)((path, name) \<mapsto> v))\<rparr>"

text \<open>
  Modelled from the spec: \<open>copyResultBuffer\<close>, the helper that copies the payload into
  the request buffer. A Go \<open>copy\<close> moves as many bytes as both slices hold; the helper
  returns that count and no error.
\<close>

definition copyResultBuffer :: "string \<Rightarrow> string \<Rightarrow> (nat \<times> go_error option) \<times> string" where
  "copyResultBuffer dst src =
     (let k = min (length dst) (length src)
      in ((k, None), take k src @ drop k dst))"

text \<open>
  The payload a read returns for a written buffer: the trimmed written value with a
  newline appended.
\<close>

definition payload :: "string \<Rightarrow> string" where
  "payload buf = TrimSpace buf @ [CHR 0x0A]"

section \<open>The \<open>nf_conntrack_max\<close> handler\<close>

text \<open>
  Each handler method returns Go's \<open>(int, error)\<close> pair together with the I/O node and
  the container state as the call leaves them. The handler's own fields are only read
  for log messages.
\<close>

definition NfConntrackMax_Open :: "ionode \<Rightarrow> go_error option \<times> ionode" where
  "NfConntrackMax_Open n =
     (let flags = OpenFlags n
      in if flags \<noteq> O_RDONLY \<and> flags \<noteq> O_WRONLY then (Some (IOerror EACCES), n)
         else let n1 = (if flags = O_WRONLY then SetOpenFlags n O_RDWR else n)
              in case io_Open n1 of
                   (Some err, n2) \<Rightarrow> (Some (IOerror EIO), n2)
                 | (None, n2) \<Rightarrow> (None, n2))"

definition FetchFile :: "ionode \<Rightarrow> string \<times> go_error option" where
  "FetchFile n =
     (case ReadLine n of (curHostMax, err) \<Rightarrow>
        if err \<noteq> None \<and> err \<noteq> Some EOF then ([], err)
        else (case Atoi curHostMax of
                Inl e \<Rightarrow> ([], Some e)
              | Inr _ \<Rightarrow> (curHostMax, None)))"

definition PushFile :: "ionode \<Rightarrow> int \<Rightarrow> go_error option \<times> ionode" where
  "PushFile n newMaxInt =
     (case ReadLine n of (curHostMax, err) \<Rightarrow>
        if err \<noteq> None \<and> err \<noteq> Some EOF then (err, n)
        else (case Atoi curHostMax of
                Inl e \<Rightarrow> (Some e, n)
              | Inr curHostMaxInt \<Rightarrow>
                  if newMaxInt \<le> curHostMaxInt then (None, n)
                  else (case SeekReset n of
                          (Some e, n1) \<Rightarrow> (Some e, n1)
                        | (None, n1) \<Rightarrow>
                            (case io_Write n1 (Itoa newMaxInt) of
                               (_, Some e, n2) \<Rightarrow> (Some e, n2)
                             | (_, None, n2) \<Rightarrow> (None, n2)))))"

definition NfConntrackMax_Read ::
  "ionode \<Rightarrow> cntr_state \<Rightarrow> pid \<Rightarrow> string \<Rightarrow> int \<Rightarrow>
   (nat \<times> go_error option) \<times> string \<times> ionode \<times> cntr_state" where
  "NfConntrackMax_Read n css p buf off =
     (if off > 0 then ((0, Some EOF), buf, n, css)
      else
        let name = io_name n; path = io_path n
        in case ContainerLookupByPid css p of
             None \<Rightarrow> ((0, Some ContainerNotFound), buf, n, css)
           | Some cntr \<Rightarrow>
               (case Data css cntr path name of
                  Some data \<Rightarrow>
                    (case copyResultBuffer buf (data @ [CHR 0x0A]) of
                       (res, buf') \<Rightarrow> (res, buf', n, css))
                | None \<Rightarrow>
                    (case FetchFile n of (data, err) \<Rightarrow>
                       if err \<noteq> None \<and> err \<noteq> Some EOF then ((0, err), buf, n, css)
                       else (case copyResultBuffer buf (data @ [CHR 0x0A]) of
                               (res, buf') \<Rightarrow>
                                 (res, buf', n, SetData css cntr path name data)))))"

definition NfConntrackMax_Write ::
  "ionode \<Rightarrow> cntr_state \<Rightarrow> pid \<Rightarrow> string \<Rightarrow>
   (nat \<times> go_error option) \<times> ionode \<times> cntr_state" where
  "NfConntrackMax_Write n css p buf =
     (let name = io_name n; path = io_path n; newMax = TrimSpace buf
      in case Atoi newMax of
           Inl err \<Rightarrow> ((0, Some err), n, css)
         | Inr newMaxInt \<Rightarrow>
             (case ContainerLookupByPid css p of
                None \<Rightarrow> ((0, Some ContainerNotFound), n, css)
              | Some cntr \<Rightarrow>
                  (case Data css cntr path name of
                     None \<Rightarrow>
                       (case PushFile n newMaxInt of
                          (Some err, n1) \<Rightarrow> ((0, Some err), n1, css)
                        | (None, n1) \<Rightarrow>
                            ((length buf, None), n1, SetData css cntr path name newMax))
                   | Some curMax \<Rightarrow>
                       (case Atoi curMax of
                          Inl err \<Rightarrow> ((0, Some err), n, css)
                        | Inr curMaxInt \<Rightarrow>
                            if newMaxInt \<le> curMaxInt
                            then ((length buf, None), n, SetData css cntr path name newMax)
                            else (case PushFile n newMaxInt of
                                    (Some err, n1) \<Rightarrow> ((0, Some EOF), n1, css)
                                  | (None, n1) \<Rightarrow>
                                      ((length buf, None), n1,
                                       SetData css cntr path name newMax))))))"

text \<open>
  A read of the node \<open>m\<close> at offset 0 by the process \<open>q\<close> returns the payload
  \<open>pl\<close>: the read copies \<open>pl\<close> into the request buffer, changes neither the node
  nor the container state, and a buffer that holds \<open>pl\<close> receives all of it, with its
  length as the byte count and no error.
\<close>

definition nfReturns :: "ionode \<Rightarrow> cntr_state \<Rightarrow> pid \<Rightarrow> string \<Rightarrow> string \<Rightarrow> bool" where
  "nfReturns m css q rbuf pl =
     (NfConntrackMax_Read m css q rbuf 0 =
        (fst (copyResultBuffer rbuf pl), snd (copyResultBuffer rbuf pl), m, css) \<and>
      (length pl \<le> length rbuf \<longrightarrow>
         fst (NfConntrackMax_Read m css q rbuf 0) = (length pl, None) \<and>
         take (length pl) (fst (snd (NfConntrackMax_Read m css q rbuf 0))) = pl))"

text \<open>
  The value of the host tunable as a handler reads it: the first line of the host file,
  trimmed and parsed.
\<close>

definition hostValue :: "ionode \<Rightarrow> go_error + int" where
  "hostValue n = Atoi (TrimSpace (takeWhile (\<lambda>c. c \<noteq> CHR 0x0A) (io_content n)))"

section \<open>The host-passthrough handlers\<close>

text \<open>
  Modelled from the spec: the handler request (\<open>domain.HandlerRequest\<close>), the per-call
  context of request ID, caller PID, resolved container (absent when the PID is outside
  every registered container), offset and data buffer. The buffer is a Go slice:
  \<open>req_Data\<close> holds its bytes up to its length, \<open>req_Spare\<close> the bytes of the
  backing array between its length and its capacity.
\<close>

record HandlerRequest =
  req_ID :: nat
  req_Pid :: pid
  req_Container :: "string option"
  req_Offset :: int
  req_Data :: string
  req_Spare :: string

definition ProcMeminfo_Open :: "ionode \<Rightarrow> HandlerRequest \<Rightarrow> go_error option \<times> ionode" where
  "ProcMeminfo_Open n req =
     (let flags = OpenFlags n
      in if flags \<noteq> O_RDONLY then (Some (IOerror EACCES), n)
         else case io_Open n of
                (Some err, n1) \<Rightarrow> (Some (IOerror EIO), n1)
              | (None, n1) \<Rightarrow> (None, n1))"

text \<open>
  \<open>ProcMeminfoHandler.Read\<close> hands the request buffer to the I/O service's \<open>ReadNode\<close>,
  an external collaborator taken here as the parameter \<open>readNode\<close>: it returns the byte
  count, the error and the bytes of the buffer as the read leaves them. The slice
  expression \<open>req.Data[:len]\<close> reslices within the capacity of the buffer and panics
  when \<open>len\<close> exceeds it.
\<close>

definition ProcMeminfo_Read ::
  "(ionode \<Rightarrow> string \<Rightarrow> nat \<times> go_error option \<times> string) \<Rightarrow>
   ionode \<Rightarrow> HandlerRequest \<Rightarrow> (nat \<times> go_error option) \<times> HandlerRequest" where
  "ProcMeminfo_Read readNode n req =
     (case readNode n (req_Data req) of (len, err, data) \<Rightarrow>
        if err \<noteq> None \<and> err \<noteq> Some EOF then ((0, err), req\<lparr>req_Data := data\<rparr>)
        else if length data + length (req_Spare req) < len
        then ((0, Some SlicePanic), req\<lparr>req_Data := data\<rparr>)
        else ((len, None),
              req\<lparr>req_Data := take len (data @ req_Spare req),
                  req_Spare := drop len (data @ req_Spare req)\<rparr>))"

definition ProcMeminfo_Write ::
  "ionode \<Rightarrow> HandlerRequest \<Rightarrow> cntr_state \<Rightarrow>
   (nat \<times> go_error option) \<times> ionode \<times> HandlerRequest \<times> cntr_state" where
  "ProcMeminfo_Write n req css = ((0, None), n, req, css)"

definition ProcCpuinfo_Read ::
  "ionode \<Rightarrow> pid \<Rightarrow> string \<Rightarrow> int \<Rightarrow> (nat \<times> go_error option) \<times> string \<times> ionode" where
  "ProcCpuinfo_Read n p buf off =
     (if off > 0 then ((0, Some EOF), buf, n) else ((0, None), buf, n))"

definition ProcCpuinfo_Write ::
  "ionode \<Rightarrow> pid \<Rightarrow> string \<Rightarrow> cntr_state \<Rightarrow>
   (nat \<times> go_error option) \<times> ionode \<times> cntr_state" where
  "ProcCpuinfo_Write n p buf css = ((0, None), n, css)"

section \<open>The \<open>neigh\<close> handler\<close>

subsection \<open>\<open>path/filepath\<close>\<close>

fun splitSlash :: "string \<Rightarrow> string list" where
  "splitSlash [] = [[]]"
| "splitSlash (c # cs) =
     (if c = CHR ''/'' then [] # splitSlash cs
      else (case splitSlash cs of
              w # ws \<Rightarrow> (c # w) # ws
            | [] \<Rightarrow> [[c]]))"

fun joinSlash :: "string list \<Rightarrow> string" where
  "joinSlash [] = []"
| "joinSlash [w] = w"
| "joinSlash (w # ws) = w @ CHR ''/'' # joinSlash ws"

text \<open>
  One step of \<open>filepath.Clean\<close> over the elements of a path: empty and \<open>.\<close> elements
  are dropped, a \<open>..\<close> removes the element before it when there is one to remove, is
  dropped at the root, and is kept otherwise.
\<close>

definition cleanStep :: "bool \<Rightarrow> string list \<Rightarrow> string \<Rightarrow> string list" where
  "cleanStep rooted out e =
     (if e = [] \<or> e = ''.'' then out
      else if e = ''..'' then
        (if out \<noteq> [] \<and> last out \<noteq> ''..'' then butlast out
         else if rooted then out
         else out @ [e])
      else out @ [e])"

definition Clean :: "string \<Rightarrow> string" where
  "Clean path =
     (if path = [] then ''.''
      else let rooted = (hd path = CHR ''/'');
               out = foldl (cleanStep rooted) [] (splitSlash path);
               r = (if rooted then ''/'' else []) @ joinSlash out
           in if r = [] then ''.'' else r)"

definition Dir :: "string \<Rightarrow> string" where
  "Dir path = Clean (rev (dropWhile (\<lambda>c. c \<noteq> CHR ''/'') (rev path)))"

definition Base :: "string \<Rightarrow> string" where
  "Base path =
     (if path = [] then ''.''
      else let p = rev (dropWhile (\<lambda>c. c = CHR ''/'') (rev path));
               b = rev (takeWhile (\<lambda>c. c \<noteq> CHR ''/'') (rev p))
           in if b = [] then ''/'' else b)"

definition Join :: "string \<Rightarrow> string \<Rightarrow> string" where
  "Join a b =
     (if a \<noteq> [] then Clean (a @ CHR ''/'' # b)
      else if b \<noteq> [] then Clean b
      else [])"

subsection \<open>Emulated nodes and \<open>ReadDirAll\<close>\<close>

datatype EmuNodeKind = EmuNodeDir | EmuNodeFile

record EmuNode =
  Kind :: EmuNodeKind
  Mode :: "32 word"

record FileInfo =
  Fname :: string
  Fmode :: "32 word"
  FmodTime :: nat
  FisDir :: bool

definition ModeDir :: "32 word" where
  "ModeDir = 2 ^ 31"

text \<open>
  The handler's table of emulated nodes, with the modes \<open>0555\<close> and \<open>0644\<close> in
  hexadecimal. Go ranges over a map in no fixed order; the list order stands for
  whichever order one run takes.
\<close>

definition EmuNodesMap :: "(string \<times> EmuNode) list" where
  "EmuNodesMap =
     [(''default'', \<lparr>Kind = EmuNodeDir, Mode = 0x16D\<rparr>),
      (''default/gc_thresh1'', \<lparr>Kind = EmuNodeFile, Mode = 0x1A4\<rparr>),
      (''default/gc_thresh2'', \<lparr>Kind = EmuNodeFile, Mode = 0x1A4\<rparr>),
      (''default/gc_thresh3'', \<lparr>Kind = EmuNodeFile, Mode = 0x1A4\<rparr>)]"

text \<open>Which branch of the loop body of \<open>ReadDirAll\<close> runs for key \<open>k\<close>.\<close>

datatype branch = FirstBranch | SecondBranch | NoBranch

definition branchOf :: "string \<Rightarrow> string \<Rightarrow> branch" where
  "branchOf relpath k =
     (if relpath = Dir k then FirstBranch
      else if relpath \<noteq> ''.'' \<and> relpath = Dir k then SecondBranch
      else NoBranch)"

definition emuBody :: "string \<Rightarrow> nat \<Rightarrow> FileInfo list \<Rightarrow> string \<Rightarrow> FileInfo list" where
  "emuBody relpath now fileEntries k =
     (case branchOf relpath k of
        FirstBranch \<Rightarrow>
          fileEntries @ [\<lparr>Fname = Base k, Fmode = ModeDir, FmodTime = now, FisDir = True\<rparr>]
      | SecondBranch \<Rightarrow>
          fileEntries @ [\<lparr>Fname = Base k, Fmode = 0, FmodTime = now, FisDir = False\<rparr>]
      | NoBranch \<Rightarrow> fileEntries)"

text \<open>
  \<open>ReadDirAll\<close> takes as parameters what the handler gets from outside: the table of
  emulated nodes, the result \<open>rel\<close> of \<open>filepath.Rel(h.Path, n.Path())\<close>, the clock,
  and \<open>common\<close>, which is \<open>None\<close> when no \<open>/proc/sys/\<close> handler is registered and
  otherwise the result of that handler's \<open>ReadDirAll\<close>.
\<close>

definition ProcSysNetIpv4Neigh_ReadDirAll ::
  "(string \<times> EmuNode) list \<Rightarrow> go_error + string \<Rightarrow> nat \<Rightarrow>
   (go_error + FileInfo list) option \<Rightarrow> HandlerRequest \<Rightarrow> go_error + FileInfo list" where
  "ProcSysNetIpv4Neigh_ReadDirAll emu rel now common req =
     (if req_Container req = None then Inl ContainerNotFound
      else case rel of
             Inl err \<Rightarrow> Inl err
           | Inr relpath \<Rightarrow>
               (let fileEntries = foldl (emuBody relpath now) [] (map fst emu)
                in case common of
                     None \<Rightarrow> Inl HandlerNotFound
                   | Some (Inl err) \<Rightarrow> Inr fileEntries
                   | Some (Inr commonNeigh) \<Rightarrow> Inr (fileEntries @ commonNeigh)))"

definition SetPath :: "ionode \<Rightarrow> string \<Rightarrow> ionode" where
  "SetPath n p = n\<lparr>io_path := p\<rparr>"

text \<open>
  \<open>Read\<close> ends in \<open>readFileInt\<close>, a helper outside the handler's file, taken as a
  parameter; \<open>ignoreErrors\<close> is the flag of the handler service.
\<close>

definition ProcSysNetIpv4Neigh_Read ::
  "bool \<Rightarrow>
   (ionode \<Rightarrow> HandlerRequest \<Rightarrow> cntr_state \<Rightarrow>
      (nat \<times> go_error option) \<times> ionode \<times> HandlerRequest \<times> cntr_state) \<Rightarrow>
   ionode \<Rightarrow> HandlerRequest \<Rightarrow> cntr_state \<Rightarrow>
   (nat \<times> go_error option) \<times> ionode \<times> HandlerRequest \<times> cntr_state" where
  "ProcSysNetIpv4Neigh_Read ignoreErrors readFileInt n req css =
     (if req_Offset req > 0 then ((0, Some EOF), n, req, css)
      else case req_Container req of
             None \<Rightarrow> ((0, Some ContainerNotFound), n, req, css)
           | Some cntr \<Rightarrow>
               readFileInt
                 (if ignoreErrors then SetPath n ''/proc/sys/net/ipv4/neigh/lo/retrans_time''
                  else n)
                 req css)"

text \<open>
  \<open>Write\<close> ends in \<open>writeInt\<close>, a helper outside the handler's file, called with the
  constants \<open>MinInt\<close> and \<open>MaxInt\<close>, which are declared outside it too, and with the
  flag \<open>false\<close>; the helper and the two constants are parameters.
\<close>

definition ProcSysNetIpv4Neigh_Write ::
  "bool \<Rightarrow>
   (ionode \<Rightarrow> HandlerRequest \<Rightarrow> cntr_state \<Rightarrow> int \<Rightarrow> int \<Rightarrow> bool \<Rightarrow>
      (nat \<times> go_error option) \<times> ionode \<times> HandlerRequest \<times> cntr_state) \<Rightarrow>
   int \<Rightarrow> int \<Rightarrow> ionode \<Rightarrow> HandlerRequest \<Rightarrow> cntr_state \<Rightarrow>
   (nat \<times> go_error option) \<times> ionode \<times> HandlerRequest \<times> cntr_state" where
  "ProcSysNetIpv4Neigh_Write ignoreErrors writeInt MinInt MaxInt n req css =
     (let cntr = req_Container req;
          newVal = TrimSpace (req_Data req)
      in case Atoi newVal of
           Inl err \<Rightarrow> ((0, Some err), n, req, css)
         | Inr _ \<Rightarrow>
             (case cntr of
                None \<Rightarrow> ((0, Some ContainerNotFound), n, req, css)
              | Some _ \<Rightarrow>
                  writeInt
                    (if ignoreErrors
                     then SetPath n ''/proc/sys/net/ipv4/neigh/lo/retrans_time''
                     else n)
                    req css MinInt MaxInt False))"

text \<open>
  Modelled from the spec: \<open>writeInt\<close>, the helper behind the \<open>neigh\<close> write, which
  is not in the sources. It parses the payload as an integer of the resource's value
  grammar, here an integer within the bounds it is given, applies the reconciliation
  policy and updates the cache with the written value; the push to the host is optional
  and is the one of the monotonic-max policy: the host value is read, left alone when the
  new value does not exceed it, and overwritten after a seek-reset otherwise. It returns
  the length of the payload.
\<close>

definition writeInt_spec ::
  "ionode \<Rightarrow> HandlerRequest \<Rightarrow> cntr_state \<Rightarrow> int \<Rightarrow> int \<Rightarrow> bool \<Rightarrow>
   (nat \<times> go_error option) \<times> ionode \<times> HandlerRequest \<times> cntr_state" where
  "writeInt_spec n req css lo hi push =
     (case req_Container req of
        None \<Rightarrow> ((0, Some ContainerNotFound), n, req, css)
      | Some cntr \<Rightarrow>
          (let newVal = TrimSpace (req_Data req)
           in case Atoi newVal of
                Inl err \<Rightarrow> ((0, Some err), n, req, css)
              | Inr v \<Rightarrow>
                  if v < lo \<or> hi < v then ((0, Some NumError), n, req, css)
                  else if push then
                    (case PushFile n v of
                       (Some err, n1) \<Rightarrow> ((0, Some err), n1, req, css)
                     | (None, n1) \<Rightarrow>
                         ((length (req_Data req), None), n1, req,
                          SetData css cntr (io_path n) (io_name n) newVal))
                  else ((length (req_Data req), None), n, req,
                        SetData css cntr (io_path n) (io_name n) newVal)))"

text \<open>
  Modelled from the spec: \<open>readFileInt\<close>, the helper behind the \<open>neigh\<close> read, which
  is not in the sources. It returns the cached container value or, on a miss, fetches
  the value from the host, validates it, caches it and returns it; it appends a newline
  before it copies the value into the data buffer of the request.
\<close>

definition readFileInt_spec ::
  "ionode \<Rightarrow> HandlerRequest \<Rightarrow> cntr_state \<Rightarrow>
   (nat \<times> go_error option) \<times> ionode \<times> HandlerRequest \<times> cntr_state" where
  "readFileInt_spec n req css =
     (case req_Container req of
        None \<Rightarrow> ((0, Some ContainerNotFound), n, req, css)
      | Some cntr \<Rightarrow>
          (case Data css cntr (io_path n) (io_name n) of
             Some data \<Rightarrow>
               (case copyResultBuffer (req_Data req) (data @ [CHR 0x0A]) of
                  (res, buf) \<Rightarrow> (res, n, req\<lparr>req_Data := buf\<rparr>, css))
           | None \<Rightarrow>
               (case FetchFile n of (data, err) \<Rightarrow>
                  if err \<noteq> None then ((0, err), n, req, css)
                  else (case copyResultBuffer (req_Data req) (data @ [CHR 0x0A]) of
                          (res, buf) \<Rightarrow>
                            (res, n, req\<lparr>req_Data := buf\<rparr>,
                             SetData css cntr (io_path n) (io_name n) data)))))"

text \<open>
  A read of the \<open>neigh\<close> node \<open>m\<close> with the request \<open>req\<close> returns the payload
  \<open>pl\<close>: the read copies \<open>pl\<close> into the data buffer of the request and leaves the
  container state alone, and a buffer that holds \<open>pl\<close> receives all of it, with its
  length as the byte count and no error.
\<close>

definition neighReturns :: "bool \<Rightarrow> ionode \<Rightarrow> HandlerRequest \<Rightarrow> cntr_state \<Rightarrow> string \<Rightarrow> bool" where
  "neighReturns ign m req css pl =
     (fst (ProcSysNetIpv4Neigh_Read ign readFileInt_spec m req css) =
        fst (copyResultBuffer (req_Data req) pl) \<and>
      req_Data (fst (snd (snd (ProcSysNetIpv4Neigh_Read ign readFileInt_spec m req css)))) =
        snd (copyResultBuffer (req_Data req) pl) \<and>
      snd (snd (snd (ProcSysNetIpv4Neigh_Read ign readFileInt_spec m req css))) = css \<and>
      (length pl \<le> length (req_Data req) \<longrightarrow>
         fst (ProcSysNetIpv4Neigh_Read ign readFileInt_spec m req css) = (length pl, None) \<and>
         take (length pl)
           (req_Data (fst (snd (snd (ProcSysNetIpv4Neigh_Read ign readFileInt_spec m req css))))) =
           pl))"

section \<open>The fuse server service\<close>

text \<open>
  The host side of the server service is the set of directories on disk, the set of live
  kernel-FS sessions, and one switch per operation and path that says whether the
  operation fails there for a reason the model does not hold (permissions, a file in the
  way, a busy mount).
\<close>

record host =
  dirs :: "string set"
  sessions :: "string set"
  mkdirFails :: "string \<Rightarrow> bool"
  initFails :: "string \<Rightarrow> bool"
  destroyFails :: "string \<Rightarrow> bool"
  removeFails :: "string \<Rightarrow> bool"

record fuseServer =
  srv_path :: string
  srv_mountPoint :: string

record FuseServerService =
  fss_path :: string
  fss_mountPoint :: string
  servers :: "(string \<times> fuseServer) list"

datatype fss_error = AlreadyPresent | InvalidMountpoint | InitFailure

text \<open>
  \<open>os.MkdirAll\<close> and \<open>os.Remove\<close>, after the Go library. \<open>MkdirAll\<close> succeeds at once
  on a directory that exists; otherwise it first makes the parent the same way and then
  the directory itself, so the ancestors it made stay on disk when a later element fails.
  \<open>parentDirs\<close> lists the proper ancestors of a path below the root, nearest first.
  \<open>Remove\<close> refuses a directory that is not there or that still has a directory below
  it.
\<close>

fun prefixesFrom :: "string \<Rightarrow> string list \<Rightarrow> string list" where
  "prefixesFrom acc [] = []"
| "prefixesFrom acc (e # es) =
     (let p = (if acc = [] \<or> acc = ''/'' then acc @ e else acc @ CHR ''/'' # e)
      in p # prefixesFrom p es)"

definition parentDirs :: "string \<Rightarrow> string list" where
  "parentDirs path =
     rev (butlast (prefixesFrom (if path \<noteq> [] \<and> hd path = CHR ''/'' then ''/'' else [])
                     (filter (\<lambda>e. e \<noteq> []) (splitSlash path))))"

fun mkdirChain :: "host \<Rightarrow> string list \<Rightarrow> bool \<times> host" where
  "mkdirChain h [] = (True, h)"
| "mkdirChain h (p # parents) =
     (if p \<in> dirs h then (True, h)
      else case mkdirChain h parents of
             (False, h1) \<Rightarrow> (False, h1)
           | (True, h1) \<Rightarrow>
               if mkdirFails h1 p then (False, h1)
               else (True, h1\<lparr>dirs := insert p (dirs h1)\<rparr>))"

definition MkdirAll :: "host \<Rightarrow> string \<Rightarrow> 32 word \<Rightarrow> bool \<times> host" where
  "MkdirAll h path perm =
     (if path = [] then (False, h) else mkdirChain h (path # parentDirs path))"

definition below :: "string \<Rightarrow> string \<Rightarrow> bool" where
  "below p d = (d \<noteq> p \<and> take (Suc (length p)) d = p @ ''/'')"

definition Remove :: "host \<Rightarrow> string \<Rightarrow> bool \<times> host" where
  "Remove h p =
     (if removeFails h p \<or> p \<notin> dirs h \<or> (\<exists>d \<in> dirs h. below p d) then (False, h)
      else (True, h\<lparr>dirs := dirs h - {p}\<rparr>))"

text \<open>
  Modelled from the spec: the methods \<open>Init\<close> and \<open>Destroy\<close> of \<open>fuseServer\<close>, a
  type declared outside \<open>service.go\<close>. \<open>Init\<close> prepares the kernel-FS session of a
  mountpoint and \<open>Destroy\<close> releases it.
\<close>

definition srv_Init :: "host \<Rightarrow> fuseServer \<Rightarrow> bool \<times> host" where
  "srv_Init h srv =
     (if initFails h (srv_mountPoint srv) then (False, h)
      else (True, h\<lparr>sessions := insert (srv_mountPoint srv) (sessions h)\<rparr>))"

definition srv_Destroy :: "host \<Rightarrow> fuseServer \<Rightarrow> bool \<times> host" where
  "srv_Destroy h srv =
     (if destroyFails h (srv_mountPoint srv) then (False, h)
      else (True, h\<lparr>sessions := sessions h - {srv_mountPoint srv}\<rparr>))"

text \<open>
  The servers map is an association list, updated and deleted by key; the read and write
  locks around each access and the goroutine that runs the server's loop are left out.
  Each host operation returns whether it succeeded; \<open>0x180\<close> is the mode \<open>0600\<close>.
\<close>

definition CreateFuseServer ::
  "FuseServerService \<Rightarrow> host \<Rightarrow> string \<Rightarrow> fss_error option \<times> FuseServerService \<times> host" where
  "CreateFuseServer fss h cntrId =
     (if map_of (servers fss) cntrId \<noteq> None then (Some AlreadyPresent, fss, h)
      else
        let cntrMountpoint = Join (fss_mountPoint fss) cntrId
        in case MkdirAll h cntrMountpoint 0x180 of
             (False, h1) \<Rightarrow> (Some InvalidMountpoint, fss, h1)
           | (True, h1) \<Rightarrow>
               (let srv = \<lparr>srv_path = ''/'', srv_mountPoint = cntrMountpoint\<rparr>
                in case srv_Init h1 srv of
                     (False, h2) \<Rightarrow> (Some InitFailure, fss, h2)
                   | (True, h2) \<Rightarrow>
                       (None, fss\<lparr>servers := AList.update cntrId srv (servers fss)\<rparr>, h2)))"

definition DestroyFuseServer ::
  "FuseServerService \<Rightarrow> host \<Rightarrow> string \<Rightarrow> fss_error option \<times> FuseServerService \<times> host" where
  "DestroyFuseServer fss h cntrId =
     (case map_of (servers fss) cntrId of
        None \<Rightarrow> (None, fss, h)
      | Some srv \<Rightarrow>
          (case srv_Destroy h srv of
             (False, h1) \<Rightarrow> (None, fss, h1)
           | (True, h1) \<Rightarrow>
               (let cntrMountpoint = Join (fss_mountPoint fss) cntrId
                in case Remove h1 cntrMountpoint of
                     (False, h2) \<Rightarrow> (None, fss, h2)
                   | (True, h2) \<Rightarrow>
                       (None, fss\<lparr>servers := AList.delete cntrId (servers fss)\<rparr>, h2))))"

text \<open>
  \<open>DestroyFuseService\<close> ranges over the keys of the servers map; a call only ever
  deletes the key it is called on, so the range visits the keys the map had at the start.
\<close>

definition destroyStep :: "FuseServerService \<times> host \<Rightarrow> string \<Rightarrow> FuseServerService \<times> host" where
  "destroyStep st k = (case st of (fss, h) \<Rightarrow> snd (DestroyFuseServer fss h k))"

definition DestroyFuseService :: "FuseServerService \<Rightarrow> host \<Rightarrow> FuseServerService \<times> host" where
  "DestroyFuseService fss h = foldl destroyStep (fss, h) (map fst (servers fss))"

section \<open>Sample states\<close>

text \<open>
  One container \<open>c1\<close>, holding the processes with the PIDs 7 and 8, and the I/O node of
  \<open>nf_conntrack_max\<close> over a host file with the given content.
\<close>

definition conntrackNode :: "string \<Rightarrow> ionode" where
  "conntrackNode c =
     \<lparr>io_name = ''nf_conntrack_max'',
      io_path = ''/proc/sys/net/netfilter/nf_conntrack_max'',
      io_flags = O_RDONLY, io_opened = True, io_content = c,
      open_fails = False, read_fails = False, seek_fails = False, write_fails = False\<rparr>"

definition cssFresh :: cntr_state where
  "cssFresh =
     \<lparr>byPid = (\<lambda>p. if p = 7 \<or> p = 8 then Some ''c1'' else None),
      cntrData = (\<lambda>c. Map.empty)\<rparr>"

definition cssCached :: "string \<Rightarrow> cntr_state" where
  "cssCached v =
     SetData cssFresh ''c1'' ''/proc/sys/net/netfilter/nf_conntrack_max'' ''nf_conntrack_max'' v"

text \<open>The node and the container state that a write leaves behind.\<close>

definition afterWrite :: "ionode \<times> cntr_state \<Rightarrow> pid \<Rightarrow> string \<Rightarrow> ionode \<times> cntr_state" where
  "afterWrite st p buf = snd (NfConntrackMax_Write (fst st) (snd st) p buf)"

text \<open>
  A service with one server, for container \<open>c1\<close>, and a host on which the teardown and
  the initialisation of a server fail.
\<close>

definition srvC1 :: fuseServer where
  "srvC1 = \<lparr>srv_path = ''/'', srv_mountPoint = ''/var/lib/sysboxfs/c1''\<rparr>"

definition fssC1 :: FuseServerService where
  "fssC1 = \<lparr>fss_path = ''/'', fss_mountPoint = ''/var/lib/sysboxfs'', servers = [(''c1'', srvC1)]\<rparr>"

definition hostFailing :: host where
  "hostFailing =
     \<lparr>dirs = {''/var'', ''/var/lib'', ''/var/lib/sysboxfs'', ''/var/lib/sysboxfs/c1''},
      sessions = {''/var/lib/sysboxfs/c1''},
      mkdirFails = (\<lambda>p. False), initFails = (\<lambda>p. True),
      destroyFails = (\<lambda>p. True), removeFails = (\<lambda>p. False)\<rparr>"

text \<open>
  The I/O node of \<open>/proc/meminfo\<close>, a write request of one byte, and a read request
  with a buffer of eight bytes at a given offset.
\<close>

definition meminfoNode :: ionode where
  "meminfoNode =
     \<lparr>io_name = ''meminfo'', io_path = ''/proc/meminfo'',
      io_flags = O_RDONLY, io_opened = True, io_content = ''MemTotal: 1 kB'',
      open_fails = False, read_fails = False, seek_fails = False, write_fails = False\<rparr>"

definition writeReq :: HandlerRequest where
  "writeReq =
     \<lparr>req_ID = 1, req_Pid = 7, req_Container = Some ''c1'', req_Offset = 0, req_Data = ''1'',
      req_Spare = []\<rparr>"

definition readReq :: "int \<Rightarrow> HandlerRequest" where
  "readReq off =
     \<lparr>req_ID = 2, req_Pid = 7, req_Container = Some ''c1'', req_Offset = off,
      req_Data = ''........'', req_Spare = []\<rparr>"

text \<open>The I/O node of \<open>gc_thresh1\<close> and a write request of \<open>c1\<close> with a given payload.\<close>

definition neighNode :: ionode where
  "neighNode =
     \<lparr>io_name = ''gc_thresh1'', io_path = ''/proc/sys/net/ipv4/neigh/default/gc_thresh1'',
      io_flags = O_RDWR, io_opened = True, io_content = ''128'',
      open_fails = False, read_fails = False, seek_fails = False, write_fails = False\<rparr>"

definition neighWriteReq :: "string \<Rightarrow> HandlerRequest" where
  "neighWriteReq buf =
     \<lparr>req_ID = 3, req_Pid = 7, req_Container = Some ''c1'', req_Offset = 0, req_Data = buf,
      req_Spare = []\<rparr>"

text \<open>A character that starts or ends the decimal form of an integer.\<close>

definition plainChar :: "char \<Rightarrow> bool" where
  "plainChar c = (isDigit c \<or> c = CHR ''-'')"

section \<open>Properties of the Go values and of the handlers\<close>

lemma stripPrefixOf_None:
  "\<forall>w \<in> set ws. hd w \<noteq> c \<Longrightarrow> stripPrefixOf ws (c # cs) = None"
proof (induction ws)
  case Nil
  then show ?case by simp
next
  case (Cons w ws)
  then have "hd w \<noteq> c" by simp
  then have "\<not> (w \<noteq> [] \<and> take (length w) (c # cs) = w)"
    by (cases w) auto
  with Cons show ?case by simp
qed

lemma whiteSpace_not_plain: "c \<in> hd ` set whiteSpace \<Longrightarrow> \<not> plainChar c"
  by (auto simp: whiteSpace_def plainChar_def isDigit_def)

lemma whiteSpace_rev_not_plain: "c \<in> hd ` set (map rev whiteSpace) \<Longrightarrow> \<not> plainChar c"
  by (auto simp: whiteSpace_def plainChar_def isDigit_def)

lemma stripPrefixOf_plain:
  "plainChar c \<Longrightarrow> stripPrefixOf whiteSpace (c # cs) = None"
  using whiteSpace_not_plain by (intro stripPrefixOf_None) blast

lemma stripPrefixOf_plain_rev:
  "plainChar c \<Longrightarrow> stripPrefixOf (map rev whiteSpace) (c # cs) = None"
  using whiteSpace_rev_not_plain by (intro stripPrefixOf_None) blast

lemma TrimSpace_plain:
  assumes "s \<noteq> []" "plainChar (hd s)" "plainChar (last s)"
  shows "TrimSpace s = s"
proof -
  obtain c cs where s: "s = c # cs" using assms(1) by (cases s) auto
  have l: "trimLeading whiteSpace s = s"
    using assms(2) s by (simp add: trimLeading.simps stripPrefixOf_plain)
  obtain d ds where r: "rev s = d # ds" using assms(1) by (cases "rev s") auto
  have "d = last s" using r assms(1) by (metis hd_rev list.sel(1))
  then have "stripPrefixOf (map rev whiteSpace) (rev s) = None"
    unfolding r using assms(3) by (simp only: stripPrefixOf_plain_rev)
  then have "trimLeading (map rev whiteSpace) (rev s) = rev s"
    by (subst trimLeading.simps) simp
  with l show ?thesis by (simp add: TrimSpace_def)
qed

lemma of_char_digit: "(d::nat) < 10 \<Longrightarrow> (of_char (char_of (48 + d)) :: nat) = 48 + d"
  by simp

lemma isDigit_char_of: "(d::nat) < 10 \<Longrightarrow> isDigit (char_of (48 + d))"
  by (simp add: isDigit_def)

lemma digitVal_char_of: "(d::nat) < 10 \<Longrightarrow> digitVal (char_of (48 + d)) = int d"
  by (simp add: digitVal_def)

lemma natDigits_nonempty: "natDigits n \<noteq> []"
  by (subst natDigits.simps) simp

lemma natDigits_digits: "list_all isDigit (natDigits n)"
proof (induction n rule: natDigits.induct)
  case (1 n)
  show ?case
  proof (cases "n < 10")
    case True
    then show ?thesis by (subst natDigits.simps) (simp add: isDigit_char_of)
  next
    case False
    with 1 show ?thesis by (subst natDigits.simps) (simp add: isDigit_char_of)
  qed
qed

lemma digitsVal_snoc: "digitsVal (ds @ [c]) = digitsVal ds * 10 + digitVal c"
  by (simp add: digitsVal_def)

lemma digitsVal_natDigits: "digitsVal (natDigits n) = int n"
proof (induction n rule: natDigits.induct)
  case (1 n)
  show ?case
  proof (cases "n < 10")
    case True
    then show ?thesis
      by (subst natDigits.simps) (simp add: digitsVal_def digitVal_char_of)
  next
    case False
    have "digitsVal (natDigits n) =
            digitsVal (natDigits (n div 10)) * 10 + digitVal (char_of (48 + n mod 10))"
      using False by (subst natDigits.simps) (simp add: digitsVal_snoc)
    also have "\<dots> = int (n div 10) * 10 + int (n mod 10)"
      using 1 False by (simp add: digitVal_char_of)
    also have "\<dots> = int n" by (simp add: zdiv_int zmod_int)
    finally show ?thesis .
  qed
qed

lemma isDigit_not_sign: "isDigit c \<Longrightarrow> c \<noteq> CHR ''-'' \<and> c \<noteq> CHR ''+'' \<and> c \<noteq> CHR 0x0A"
  by (auto simp: isDigit_def)

lemma hd_natDigits: "isDigit (hd (natDigits n))"
  using natDigits_digits [of n] natDigits_nonempty [of n]
  by (cases "natDigits n") auto

lemma last_natDigits: "isDigit (last (natDigits n))"
  using natDigits_digits [of n] natDigits_nonempty [of n]
  by (metis last_in_set list_all_iff)

lemma Atoi_Itoa: "minInt \<le> v \<Longrightarrow> v \<le> maxInt \<Longrightarrow> Atoi (Itoa v) = Inr v"
proof (cases "v < 0")
  case True
  assume "minInt \<le> v" "v \<le> maxInt"
  then show ?thesis using True
    by (simp add: Atoi_def Itoa_def natDigits_nonempty natDigits_digits digitsVal_natDigits)
next
  case False
  assume "minInt \<le> v" "v \<le> maxInt"
  moreover have "hd (natDigits (nat v)) \<noteq> CHR ''-'' \<and> hd (natDigits (nat v)) \<noteq> CHR ''+''"
    using hd_natDigits isDigit_not_sign by blast
  ultimately show ?thesis using False
    by (simp add: Atoi_def Itoa_def natDigits_nonempty natDigits_digits digitsVal_natDigits)
qed

lemma Itoa_plain: "Itoa v \<noteq> [] \<and> plainChar (hd (Itoa v)) \<and> plainChar (last (Itoa v))"
  by (simp add: Itoa_def plainChar_def natDigits_nonempty hd_natDigits last_natDigits)

lemma Itoa_no_newline: "takeWhile (\<lambda>c. c \<noteq> CHR 0x0A) (Itoa v) = Itoa v"
proof -
  have "\<forall>c \<in> set (natDigits n). c \<noteq> CHR 0x0A" for n
    using natDigits_digits [of n] isDigit_not_sign by (auto simp: list_all_iff)
  then show ?thesis by (auto simp: Itoa_def)
qed

lemma hostValue_Itoa:
  "minInt \<le> v \<Longrightarrow> v \<le> maxInt \<Longrightarrow> hostValue (n\<lparr>io_content := Itoa v\<rparr>) = Inr v"
  by (simp add: hostValue_def Itoa_no_newline TrimSpace_plain Itoa_plain Atoi_Itoa)

lemma Atoi_range: "Atoi s = Inr v \<Longrightarrow> minInt \<le> v \<and> v \<le> maxInt"
  by (auto simp: Atoi_def Let_def split: if_splits)


lemma TrimSpace_Nil: "TrimSpace [] = []"
  by (simp add: TrimSpace_def trimLeading.simps whiteSpace_def)

lemma hostValue_empty: "io_content n = [] \<Longrightarrow> hostValue n = Inl NumError"
  by (simp add: hostValue_def TrimSpace_Nil Atoi_def)

lemma PushFile_ok:
  assumes "PushFile n v = (None, n')" "hostValue n = Inr H" "minInt \<le> v" "v \<le> maxInt"
  shows "hostValue n' = Inr (max v H) \<and> (v \<le> H \<longrightarrow> n' = n) \<and>
         io_name n' = io_name n \<and> io_path n' = io_path n"
proof -
  have ne: "io_content n \<noteq> []" using assms(2) hostValue_empty by fastforce
  have rl: "ReadLine n = (TrimSpace (takeWhile (\<lambda>c. c \<noteq> CHR 0x0A) (io_content n)), None)"
    using assms(1) ne by (auto simp: PushFile_def ReadLine_def split: if_splits)
  have at: "Atoi (TrimSpace (takeWhile (\<lambda>c. c \<noteq> CHR 0x0A) (io_content n))) = Inr H"
    using assms(2) by (simp add: hostValue_def)
  show ?thesis
  proof (cases "v \<le> H")
    case True
    then have "n' = n" using assms(1) rl at by (simp add: PushFile_def)
    with True assms(2) show ?thesis by (simp add: max_def)
  next
    case False
    then have "n' = n\<lparr>io_content := Itoa v\<rparr>"
      using assms(1) rl at
      by (auto simp: PushFile_def SeekReset_def io_Write_def split: if_splits)
    with False assms(3,4) show ?thesis by (simp add: hostValue_Itoa max_def)
  qed
qed

lemma PushFile_names:
  "PushFile n v = (r, n') \<Longrightarrow> io_name n' = io_name n \<and> io_path n' = io_path n"
  by (auto simp: PushFile_def SeekReset_def io_Write_def
        split: prod.splits sum.splits if_splits option.splits)

lemma Write_names:
  "NfConntrackMax_Write n css p buf = (r, n', css') \<Longrightarrow>
   io_name n' = io_name n \<and> io_path n' = io_path n \<and> byPid css' = byPid css"
  by (auto simp: NfConntrackMax_Write_def Let_def SetData_def dest: PushFile_names
        split: prod.splits sum.splits if_splits option.splits)

lemma Write_ok_cache:
  "NfConntrackMax_Write n css p buf = ((k, None), n', css') \<Longrightarrow>
   \<exists>cntr. ContainerLookupByPid css p = Some cntr \<and>
     Data css' cntr (io_path n) (io_name n) = Some (TrimSpace buf) \<and> k = length buf"
  by (auto simp: NfConntrackMax_Write_def Let_def SetData_def Data_def
        split: prod.splits sum.splits if_splits option.splits)

lemma Read_cached:
  "ContainerLookupByPid css p = Some cntr \<Longrightarrow>
   Data css cntr (io_path m) (io_name m) = Some d \<Longrightarrow>
   NfConntrackMax_Read m css p rbuf 0 =
     (fst (copyResultBuffer rbuf (d @ [CHR 0x0A])),
      snd (copyResultBuffer rbuf (d @ [CHR 0x0A])), m, css)"
  by (simp add: NfConntrackMax_Read_def Let_def split: prod.splits)

lemma copyResultBuffer_fits:
  "length src \<le> length dst \<Longrightarrow>
   fst (copyResultBuffer dst src) = (length src, None) \<and>
   take (length src) (snd (copyResultBuffer dst src)) = src"
  by (simp add: copyResultBuffer_def Let_def min_def)

lemma nf_write_read:
  assumes w: "NfConntrackMax_Write n0 s pw b = ((k, None), n0', s')"
      and q: "ContainerLookupByPid s q = ContainerLookupByPid s pw"
      and nm: "io_name m = io_name n0" "io_path m = io_path n0"
  shows "nfReturns m s' q rbuf (payload b)"
proof -
  obtain c where c: "ContainerLookupByPid s pw = Some c"
      "Data s' c (io_path n0) (io_name n0) = Some (TrimSpace b)"
    using Write_ok_cache [OF w] by blast
  have "byPid s' = byPid s"
    using Write_names [OF w] by simp
  then have l: "ContainerLookupByPid s' q = Some c"
    using c(1) q by (simp add: ContainerLookupByPid_def)
  have r: "NfConntrackMax_Read m s' q rbuf 0 =
         (fst (copyResultBuffer rbuf (payload b)), snd (copyResultBuffer rbuf (payload b)), m, s')"
    using Read_cached [OF l, of m "TrimSpace b" rbuf] c(2) nm by (simp add: payload_def)
  show ?thesis
    unfolding nfReturns_def
    using r copyResultBuffer_fits [of "payload b" rbuf] by simp
qed

lemma neigh_write_cache:
  assumes w: "ProcSysNetIpv4Neigh_Write ign writeInt_spec lo hi n0 wreq s = ((k, None), n0', wreq', s')"
  shows "\<exists>c. req_Container wreq = Some c \<and>
           s' = SetData s c
                  (if ign then ''/proc/sys/net/ipv4/neigh/lo/retrans_time'' else io_path n0)
                  (io_name n0) (TrimSpace (req_Data wreq))"
  using w
  by (auto simp: ProcSysNetIpv4Neigh_Write_def writeInt_spec_def SetPath_def Let_def
        split: sum.splits option.splits if_splits)

lemma neigh_read_cached:
  assumes "req_Container rreq = Some c" "req_Offset rreq = 0"
      and "Data s c (if ign then ''/proc/sys/net/ipv4/neigh/lo/retrans_time'' else io_path m)
             (io_name m) = Some d"
  shows "neighReturns ign m rreq s (d @ [CHR 0x0A])"
proof -
  let ?m1 = "if ign then SetPath m ''/proc/sys/net/ipv4/neigh/lo/retrans_time'' else m"
  have d: "Data s c (io_path ?m1) (io_name ?m1) = Some d"
    using assms(3) by (cases ign) (simp_all add: SetPath_def)
  have r: "ProcSysNetIpv4Neigh_Read ign readFileInt_spec m rreq s =
         (fst (copyResultBuffer (req_Data rreq) (d @ [CHR 0x0A])), ?m1,
          rreq\<lparr>req_Data := snd (copyResultBuffer (req_Data rreq) (d @ [CHR 0x0A]))\<rparr>, s)"
    using assms(1,2) d
    by (simp add: ProcSysNetIpv4Neigh_Read_def readFileInt_spec_def split: prod.splits)
  show ?thesis
    unfolding neighReturns_def
    using r copyResultBuffer_fits [of "d @ [CHR 0x0A]" "req_Data rreq"] by simp
qed

lemma neigh_write_read:
  assumes w: "ProcSysNetIpv4Neigh_Write ign writeInt_spec lo hi n0 wreq s = ((k, None), n0', wreq', s')"
      and c: "req_Container rreq = req_Container wreq" "req_Offset rreq = 0"
      and nm: "io_name m = io_name n0" "io_path m = io_path n0"
  shows "neighReturns ign m rreq s' (payload (req_Data wreq))"
proof -
  obtain cn where cn: "req_Container wreq = Some cn"
      "s' = SetData s cn
              (if ign then ''/proc/sys/net/ipv4/neigh/lo/retrans_time'' else io_path n0)
              (io_name n0) (TrimSpace (req_Data wreq))"
    using neigh_write_cache [OF w] by blast
  have d: "Data s' cn (if ign then ''/proc/sys/net/ipv4/neigh/lo/retrans_time'' else io_path m)
             (io_name m) = Some (TrimSpace (req_Data wreq))"
    using cn(2) nm by (simp add: Data_def SetData_def)
  have rc: "req_Container rreq = Some cn"
    using c(1) cn(1) by simp
  from neigh_read_cached [OF rc c(2) d] show ?thesis
    by (simp add: payload_def)
qed

lemma emu_fold:
  "foldl (emuBody relpath now) acc ks =
     acc @ map (\<lambda>k. \<lparr>Fname = Base k, Fmode = ModeDir, FmodTime = now, FisDir = True\<rparr>)
            (filter (\<lambda>k. relpath = Dir k) ks)"
  by (induction ks arbitrary: acc) (auto simp: emuBody_def branchOf_def)

lemma mkdirChain_keeps:
  "mkdirChain h ps = (b, h') \<Longrightarrow>
   dirs h \<subseteq> dirs h' \<and> sessions h' = sessions h \<and> initFails h' = initFails h"
proof (induction ps arbitrary: b h')
  case Nil
  then show ?case by simp
next
  case (Cons p ps)
  show ?case
  proof (cases "p \<in> dirs h")
    case True
    with Cons.prems show ?thesis by simp
  next
    case False
    obtain b1 h1 where r: "mkdirChain h ps = (b1, h1)"
      by (cases "mkdirChain h ps") auto
    from Cons.IH [OF r] Cons.prems False r show ?thesis
      by (cases b1) (auto split: if_splits)
  qed
qed

lemma mkdirChain_made:
  "mkdirChain h (p # ps) = (True, h') \<Longrightarrow> p \<in> dirs h'"
proof (cases "p \<in> dirs h")
  case True
  assume "mkdirChain h (p # ps) = (True, h')"
  with True show ?thesis by simp
next
  case False
  assume a: "mkdirChain h (p # ps) = (True, h')"
  obtain b1 h1 where r: "mkdirChain h ps = (b1, h1)"
    by (cases "mkdirChain h ps") auto
  from a False r show ?thesis
    by (cases b1) (auto split: if_splits)
qed

lemma MkdirAll_keeps:
  "MkdirAll h p perm = (b, h') \<Longrightarrow>
   dirs h \<subseteq> dirs h' \<and> sessions h' = sessions h \<and> initFails h' = initFails h"
  by (cases "p = []") (auto simp: MkdirAll_def simp del: mkdirChain.simps dest: mkdirChain_keeps)

lemma MkdirAll_made: "MkdirAll h p perm = (True, h') \<Longrightarrow> p \<in> dirs h'"
  by (cases "p = []") (auto simp: MkdirAll_def simp del: mkdirChain.simps dest: mkdirChain_made)

lemma destroyServer_oracles:
  "DestroyFuseServer fss h k = (r, fss', h') \<Longrightarrow>
   destroyFails h' = destroyFails h \<and> fss_mountPoint fss' = fss_mountPoint fss"
  by (auto simp: DestroyFuseServer_def srv_Destroy_def Remove_def Let_def
        split: option.splits if_splits)

lemma destroyServer_other:
  "DestroyFuseServer fss h k = (r, fss', h') \<Longrightarrow> map_of (servers fss) c = Some srv \<Longrightarrow>
   destroyFails h (srv_mountPoint srv) \<Longrightarrow> map_of (servers fss') c = Some srv"
  by (auto simp: DestroyFuseServer_def srv_Destroy_def Remove_def Let_def delete_conv
        split: option.splits if_splits)

lemma destroy_fold_keeps:
  "map_of (servers fss) c = Some srv \<Longrightarrow> destroyFails h (srv_mountPoint srv) \<Longrightarrow>
   foldl destroyStep (fss, h) ks = (fss', h') \<Longrightarrow>
   map_of (servers fss') c = Some srv \<and> destroyFails h' = destroyFails h"
proof (induction ks arbitrary: fss h)
  case Nil
  then show ?case by simp
next
  case (Cons k ks)
  obtain r fss1 h1 where d: "DestroyFuseServer fss h k = (r, fss1, h1)"
    by (cases "DestroyFuseServer fss h k") auto
  have m: "map_of (servers fss1) c = Some srv"
    using destroyServer_other [OF d Cons.prems(1) Cons.prems(2)] .
  have o: "destroyFails h1 = destroyFails h"
    using destroyServer_oracles [OF d] by simp
  have step: "destroyStep (fss, h) k = (fss1, h1)"
    using d by (simp add: destroyStep_def)
  have f: "foldl destroyStep (fss1, h1) ks = (fss', h')"
    using Cons.prems(3) step by simp
  from Cons.IH [OF m _ f] o Cons.prems(2) show ?case by simp
qed

subsection \<open>Evaluation of the sample states\<close>

lemmas go_eval = TrimSpace_def whiteSpace_def trimLeading.simps Atoi_def isDigit_def
  digitsVal_def digitVal_def minInt_def maxInt_def Itoa_def natDigits.simps

lemmas nf_eval = NfConntrackMax_Write_def NfConntrackMax_Read_def PushFile_def FetchFile_def
  ReadLine_def SeekReset_def io_Write_def ContainerLookupByPid_def Data_def SetData_def
  copyResultBuffer_def hostValue_def afterWrite_def conntrackNode_def cssFresh_def
  cssCached_def Let_def

lemmas path_eval = Dir_def Base_def Clean_def cleanStep_def Join_def Let_def

lemma Join_c2: "Join ''/var/lib/sysboxfs'' ''c2'' = ''/var/lib/sysboxfs/c2''"
  by (simp add: path_eval)

lemma parentDirs_c2:
  "parentDirs ''/var/lib/sysboxfs/c2'' = [''/var/lib/sysboxfs'', ''/var/lib'', ''/var'']"
  by (simp add: parentDirs_def)

text \<open>
  A \<open>MkdirAll\<close> that fails at the last element leaves the parents it made: on a disk
  that holds \<open>/var\<close> only, the two directories above the mountpoint stay.
\<close>

lemma MkdirAll_leaves_parents:
  "MkdirAll (hostFailing\<lparr>dirs := {''/var''}, mkdirFails := (\<lambda>p. p = ''/var/lib/sysboxfs/c2'')\<rparr>)
     ''/var/lib/sysboxfs/c2'' perm =
   (False, hostFailing\<lparr>dirs := {''/var/lib/sysboxfs'', ''/var/lib'', ''/var''},
                       mkdirFails := (\<lambda>p. p = ''/var/lib/sysboxfs/c2'')\<rparr>)"
  by (simp add: MkdirAll_def parentDirs_c2 hostFailing_def)

lemma MkdirAll_c2:
  "MkdirAll hostFailing ''/var/lib/sysboxfs/c2'' perm =
     (True, hostFailing\<lparr>dirs := insert ''/var/lib/sysboxfs/c2'' (dirs hostFailing)\<rparr>)"
  by (simp add: MkdirAll_def parentDirs_c2 hostFailing_def)

section \<open>The claims\<close>

subsection \<open>Writes to \<open>nf_conntrack_max\<close> and the host value\<close>

text \<open>
  C1, as amended. Let a write of \<open>v\<close> to \<open>nf_conntrack_max\<close> succeed for a registered
  container while the host value is \<open>H\<close>. Then the container's cached value is the
  written \<open>v\<close>. When the container had no cached value, or \<open>v\<close> exceeds the cached
  value, the host value afterwards is \<open>max v H\<close>, and the host file is not written when
  \<open>v \<le> H\<close>. When \<open>v\<close> is at most the cached value \<open>c\<close>, the host file is not
  written; the host value then is \<open>max v H\<close> whenever \<open>c \<le> H\<close>.
\<close>

theorem write_host_value:
  assumes w: "NfConntrackMax_Write n css p buf = ((k, None), n', css')"
      and h: "hostValue n = Inr H"
  shows "\<exists>cntr v. ContainerLookupByPid css p = Some cntr \<and> Atoi (TrimSpace buf) = Inr v \<and>
     Data css' cntr (io_path n) (io_name n) = Some (TrimSpace buf) \<and>
     (case Data css cntr (io_path n) (io_name n) of
        None \<Rightarrow> hostValue n' = Inr (max v H) \<and> (v \<le> H \<longrightarrow> n' = n)
      | Some curMax \<Rightarrow>
          (\<exists>c. Atoi curMax = Inr c \<and>
             (if v \<le> c then n' = n
              else hostValue n' = Inr (max v H) \<and> (v \<le> H \<longrightarrow> n' = n)) \<and>
             (c \<le> H \<longrightarrow> hostValue n' = Inr (max v H))))"
proof -
  obtain cntr where c: "ContainerLookupByPid css p = Some cntr"
      "Data css' cntr (io_path n) (io_name n) = Some (TrimSpace buf)"
    using Write_ok_cache [OF w] by blast
  obtain v where v: "Atoi (TrimSpace buf) = Inr v"
    using w by (cases "Atoi (TrimSpace buf)") (auto simp: NfConntrackMax_Write_def Let_def)
  have rg: "minInt \<le> v" "v \<le> maxInt" using Atoi_range [OF v] by simp_all
  show ?thesis
  proof (cases "Data css cntr (io_path n) (io_name n)")
    case None
    then have "PushFile n v = (None, n')"
      using w c(1) v
      by (auto simp: NfConntrackMax_Write_def Let_def split: prod.splits option.splits)
    from PushFile_ok [OF this h rg] None c v show ?thesis by simp
  next
    case (Some curMax)
    then obtain ci where ci: "Atoi curMax = Inr ci"
      using w c(1) v
      by (cases "Atoi curMax") (auto simp: NfConntrackMax_Write_def Let_def)
    show ?thesis
    proof (cases "v \<le> ci")
      case True
      then have "n' = n"
        using w c(1) v Some ci by (simp add: NfConntrackMax_Write_def Let_def)
      with True Some ci c v h show ?thesis by (auto simp: max_def)
    next
      case False
      then have "PushFile n v = (None, n')"
        using w c(1) v Some ci
        by (auto simp: NfConntrackMax_Write_def Let_def split: prod.splits option.splits)
      from PushFile_ok [OF this h rg] False Some ci c v show ?thesis by auto
    qed
  qed
qed

text \<open>
  The witness: the first write of a container, \<open>200\<close> over a host value of \<open>100\<close>.
\<close>

theorem write_host_value_witness:
  "fst (NfConntrackMax_Write (conntrackNode ''100'') cssFresh 7 ''200\<newline>'') = (4, None) \<and>
   hostValue (conntrackNode ''100'') = Inr 100 \<and>
   hostValue (fst (afterWrite (conntrackNode ''100'', cssFresh) 7 ''200\<newline>'')) = Inr 200 \<and>
   Data (snd (afterWrite (conntrackNode ''100'', cssFresh) 7 ''200\<newline>'')) ''c1''
     ''/proc/sys/net/netfilter/nf_conntrack_max'' ''nf_conntrack_max'' = Some ''200''"
proof -
  let ?W = "NfConntrackMax_Write (conntrackNode ''100'') cssFresh 7 ''200\<newline>''"
  have e: "fst ?W = (4, None)"
    by (simp add: nf_eval go_eval)
  then have w: "?W = ((4, None), fst (snd ?W), snd (snd ?W))"
    by (metis prod.collapse)
  have h: "hostValue (conntrackNode ''100'') = Inr 100"
    by (simp add: nf_eval go_eval)
  have d: "Data cssFresh ''c1'' (io_path (conntrackNode ''100'')) (io_name (conntrackNode ''100'')) = None"
    by (simp add: nf_eval)
  have l: "ContainerLookupByPid cssFresh 7 = Some ''c1''"
    by (simp add: nf_eval)
  have a: "Atoi (TrimSpace ''200\<newline>'') = Inr 200"
    by (simp add: go_eval)
  have n: "io_path (conntrackNode ''100'') = ''/proc/sys/net/netfilter/nf_conntrack_max''"
      "io_name (conntrackNode ''100'') = ''nf_conntrack_max''"
    by (simp_all add: conntrackNode_def)
  have t: "TrimSpace ''200\<newline>'' = ''200''"
    by (simp add: go_eval)
  from write_host_value [OF w h] d l a
  have "hostValue (fst (snd ?W)) = Inr (max 200 100) \<and>
        Data (snd (snd ?W)) ''c1'' (io_path (conntrackNode ''100''))
          (io_name (conntrackNode ''100'')) = Some (TrimSpace ''200\<newline>'')"
    by auto
  with e h n t show ?thesis
    by (simp add: afterWrite_def)
qed

text \<open>
  The claim as stated fails when the cached value is above the host value: with \<open>500\<close>
  cached and \<open>100\<close> on the host, a write of \<open>300\<close> succeeds and leaves the host at
  \<open>100\<close>, not at \<open>max 300 100\<close>.
\<close>

theorem write_host_value_counterexample:
  "fst (NfConntrackMax_Write (conntrackNode ''100'') (cssCached ''500'') 7 ''300'') = (3, None) \<and>
   hostValue (conntrackNode ''100'') = Inr 100 \<and>
   hostValue (fst (afterWrite (conntrackNode ''100'', cssCached ''500'') 7 ''300'')) = Inr 100 \<and>
   max (300::int) 100 \<noteq> 100"
  by (simp add: nf_eval go_eval)

subsection \<open>Read after write\<close>

text \<open>
  C2. After a successful write of \<open>b1\<close> to a resource of the \<open>nf_conntrack_max\<close>
  handler by a process of a container, a read at offset 0 of the same resource by any
  process of that container returns the payload of \<open>b1\<close>, the trimmed written value with
  a newline appended; after a second successful write, of \<open>b2\<close>, to the same resource by
  a process of that container the read returns the payload of \<open>b2\<close>. The same holds for
  the \<open>neigh\<close> handler, whose requests carry the container; there the helpers behind
  \<open>Write\<close> and \<open>Read\<close> are the ones modelled from the spec, for any bounds and either
  value of the service's flag.
\<close>

theorem write_then_read:
  "(NfConntrackMax_Write n css p b1 = ((k1, None), n1, css1) \<and>
    ContainerLookupByPid css q = ContainerLookupByPid css p \<and>
    io_name m = io_name n \<and> io_path m = io_path n \<longrightarrow>
      nfReturns m css1 q rbuf (payload b1) \<and>
      (\<forall>nw pw b2 k2 n2 css2.
         io_name nw = io_name n \<and> io_path nw = io_path n \<and>
         ContainerLookupByPid css pw = ContainerLookupByPid css p \<and>
         NfConntrackMax_Write nw css1 pw b2 = ((k2, None), n2, css2) \<longrightarrow>
           nfReturns m css2 q rbuf (payload b2))) \<and>
   (ProcSysNetIpv4Neigh_Write ign writeInt_spec lo hi gn wreq1 gcss = ((g1, None), gn1, wreq1', gcss1) \<and>
    req_Container rreq = req_Container wreq1 \<and> req_Offset rreq = 0 \<and>
    io_name gm = io_name gn \<and> io_path gm = io_path gn \<longrightarrow>
      neighReturns ign gm rreq gcss1 (payload (req_Data wreq1)) \<and>
      (\<forall>gw wreq2 g2 gn2 wreq2' gcss2.
         io_name gw = io_name gn \<and> io_path gw = io_path gn \<and>
         req_Container wreq2 = req_Container wreq1 \<and>
         ProcSysNetIpv4Neigh_Write ign writeInt_spec lo hi gw wreq2 gcss1 =
           ((g2, None), gn2, wreq2', gcss2) \<longrightarrow>
           neighReturns ign gm rreq gcss2 (payload (req_Data wreq2))))"
proof -
  have nf_first: "nfReturns m css1 q rbuf (payload b1)"
    if h: "NfConntrackMax_Write n css p b1 = ((k1, None), n1, css1) \<and>
           ContainerLookupByPid css q = ContainerLookupByPid css p \<and>
           io_name m = io_name n \<and> io_path m = io_path n"
  proof -
    from h have w: "NfConntrackMax_Write n css p b1 = ((k1, None), n1, css1)"
      and l: "ContainerLookupByPid css q = ContainerLookupByPid css p"
      and nm: "io_name m = io_name n" "io_path m = io_path n"
      by simp_all
    show ?thesis using nf_write_read [OF w l nm] .
  qed
  have nf_second: "nfReturns m css2 q rbuf (payload b2)"
    if h: "NfConntrackMax_Write n css p b1 = ((k1, None), n1, css1) \<and>
           ContainerLookupByPid css q = ContainerLookupByPid css p \<and>
           io_name m = io_name n \<and> io_path m = io_path n"
      and h2: "io_name nw = io_name n \<and> io_path nw = io_path n \<and>
           ContainerLookupByPid css pw = ContainerLookupByPid css p \<and>
           NfConntrackMax_Write nw css1 pw b2 = ((k2, None), n2, css2)"
    for nw pw b2 k2 n2 css2
  proof -
    from h have w: "NfConntrackMax_Write n css p b1 = ((k1, None), n1, css1)"
      and l: "ContainerLookupByPid css q = ContainerLookupByPid css p"
      and nm: "io_name m = io_name n" "io_path m = io_path n"
      by simp_all
    from h2 have w2: "NfConntrackMax_Write nw css1 pw b2 = ((k2, None), n2, css2)"
      and l2: "ContainerLookupByPid css pw = ContainerLookupByPid css p"
      and nm2: "io_name nw = io_name n" "io_path nw = io_path n"
      by simp_all
    have "byPid css1 = byPid css"
      using Write_names [OF w] by simp
    then have l': "ContainerLookupByPid css1 q = ContainerLookupByPid css1 pw"
      using l l2 by (simp add: ContainerLookupByPid_def)
    have nm': "io_name m = io_name nw" "io_path m = io_path nw"
      using nm nm2 by simp_all
    show ?thesis using nf_write_read [OF w2 l' nm'] .
  qed
  have ng_first: "neighReturns ign gm rreq gcss1 (payload (req_Data wreq1))"
    if h: "ProcSysNetIpv4Neigh_Write ign writeInt_spec lo hi gn wreq1 gcss =
             ((g1, None), gn1, wreq1', gcss1) \<and>
           req_Container rreq = req_Container wreq1 \<and> req_Offset rreq = 0 \<and>
           io_name gm = io_name gn \<and> io_path gm = io_path gn"
  proof -
    from h have w: "ProcSysNetIpv4Neigh_Write ign writeInt_spec lo hi gn wreq1 gcss =
             ((g1, None), gn1, wreq1', gcss1)"
      and c: "req_Container rreq = req_Container wreq1" "req_Offset rreq = 0"
      and nm: "io_name gm = io_name gn" "io_path gm = io_path gn"
      by simp_all
    show ?thesis using neigh_write_read [OF w c nm] .
  qed
  have ng_second: "neighReturns ign gm rreq gcss2 (payload (req_Data wreq2))"
    if h: "ProcSysNetIpv4Neigh_Write ign writeInt_spec lo hi gn wreq1 gcss =
             ((g1, None), gn1, wreq1', gcss1) \<and>
           req_Container rreq = req_Container wreq1 \<and> req_Offset rreq = 0 \<and>
           io_name gm = io_name gn \<and> io_path gm = io_path gn"
      and h2: "io_name gw = io_name gn \<and> io_path gw = io_path gn \<and>
           req_Container wreq2 = req_Container wreq1 \<and>
           ProcSysNetIpv4Neigh_Write ign writeInt_spec lo hi gw wreq2 gcss1 =
             ((g2, None), gn2, wreq2', gcss2)"
    for gw wreq2 g2 gn2 wreq2' gcss2
  proof -
    from h have c: "req_Container rreq = req_Container wreq1" "req_Offset rreq = 0"
      and nm: "io_name gm = io_name gn" "io_path gm = io_path gn"
      by simp_all
    from h2 have w2: "ProcSysNetIpv4Neigh_Write ign writeInt_spec lo hi gw wreq2 gcss1 =
             ((g2, None), gn2, wreq2', gcss2)"
      and c2: "req_Container wreq2 = req_Container wreq1"
      and nm2: "io_name gw = io_name gn" "io_path gw = io_path gn"
      by simp_all
    have c': "req_Container rreq = req_Container wreq2"
      using c(1) c2 by simp
    have nm': "io_name gm = io_name gw" "io_path gm = io_path gw"
      using nm nm2 by simp_all
    show ?thesis using neigh_write_read [OF w2 c' c(2) nm'] .
  qed
  from nf_first nf_second ng_first ng_second show ?thesis
    by blast
qed

text \<open>
  The witness: the process 7 of \<open>c1\<close> writes \<open>200\<close> and then \<open>150\<close> to
  \<open>nf_conntrack_max\<close> over a host value of \<open>100\<close>, and the process 8 of \<open>c1\<close> reads
  with a buffer of eight bytes; \<open>c1\<close> writes \<open>300\<close> to \<open>gc_thresh1\<close> and reads it.
\<close>

theorem write_then_read_witness:
  "fst (NfConntrackMax_Write (conntrackNode ''100'') cssFresh 7 ''200\<newline>'') = (4, None) \<and>
   fst (NfConntrackMax_Write (fst (afterWrite (conntrackNode ''100'', cssFresh) 7 ''200\<newline>''))
          (snd (afterWrite (conntrackNode ''100'', cssFresh) 7 ''200\<newline>'')) 7 ''150\<newline>'') = (4, None) \<and>
   fst (NfConntrackMax_Read (conntrackNode ''200'')
          (snd (afterWrite (afterWrite (conntrackNode ''100'', cssFresh) 7 ''200\<newline>'') 7 ''150\<newline>''))
          8 ''........'' 0) = (4, None) \<and>
   take 4 (fst (snd (NfConntrackMax_Read (conntrackNode ''200'')
          (snd (afterWrite (afterWrite (conntrackNode ''100'', cssFresh) 7 ''200\<newline>'') 7 ''150\<newline>''))
          8 ''........'' 0))) = ''150\<newline>'' \<and>
   fst (ProcSysNetIpv4Neigh_Write False writeInt_spec minInt maxInt neighNode
          (neighWriteReq ''300\<newline>'') cssFresh) = (4, None) \<and>
   fst (ProcSysNetIpv4Neigh_Read False readFileInt_spec neighNode (readReq 0)
          (snd (snd (snd (ProcSysNetIpv4Neigh_Write False writeInt_spec minInt maxInt neighNode
             (neighWriteReq ''300\<newline>'') cssFresh))))) = (4, None) \<and>
   take 4 (req_Data (fst (snd (snd (ProcSysNetIpv4Neigh_Read False readFileInt_spec neighNode
          (readReq 0)
          (snd (snd (snd (ProcSysNetIpv4Neigh_Write False writeInt_spec minInt maxInt neighNode
             (neighWriteReq ''300\<newline>'') cssFresh))))))))) = ''300\<newline>''"
proof -
  let ?W1 = "NfConntrackMax_Write (conntrackNode ''100'') cssFresh 7 ''200\<newline>''"
  let ?W2 = "NfConntrackMax_Write (fst (snd ?W1)) (snd (snd ?W1)) 7 ''150\<newline>''"
  let ?G = "ProcSysNetIpv4Neigh_Write False writeInt_spec minInt maxInt neighNode
          (neighWriteReq ''300\<newline>'') cssFresh"
  have e1: "fst ?W1 = (4, None)"
    by (simp add: nf_eval go_eval)
  then have w1: "?W1 = ((4, None), fst (snd ?W1), snd (snd ?W1))"
    by (metis prod.collapse)
  have e2: "fst ?W2 = (4, None)"
    by (simp add: nf_eval go_eval)
  then have w2: "?W2 = ((4, None), fst (snd ?W2), snd (snd ?W2))"
    by (metis prod.collapse)
  have q: "ContainerLookupByPid cssFresh 8 = ContainerLookupByPid cssFresh 7"
    by (simp add: ContainerLookupByPid_def cssFresh_def)
  have m: "io_name (conntrackNode ''200'') = io_name (conntrackNode ''100'')"
      "io_path (conntrackNode ''200'') = io_path (conntrackNode ''100'')"
    by (simp_all add: conntrackNode_def)
  have nm: "io_name (fst (snd ?W1)) = io_name (conntrackNode ''100'')"
      "io_path (fst (snd ?W1)) = io_path (conntrackNode ''100'')"
    using Write_names [OF w1] by simp_all
  have p150: "payload ''150\<newline>'' = ''150\<newline>''"
    by (simp add: payload_def go_eval)
  have p300: "payload ''300\<newline>'' = ''300\<newline>''"
    by (simp add: payload_def go_eval)
  have e3: "fst ?G = (4, None)"
    by (simp add: ProcSysNetIpv4Neigh_Write_def writeInt_spec_def neighWriteReq_def go_eval Let_def)
  then have g: "?G = ((4, None), fst (snd ?G), fst (snd (snd ?G)), snd (snd (snd ?G)))"
    by (metis prod.collapse)
  have rq: "req_Container (readReq 0) = req_Container (neighWriteReq ''300\<newline>'')"
      "req_Offset (readReq 0) = 0" "req_Data (readReq 0) = ''........''"
      "req_Data (neighWriteReq ''300\<newline>'') = ''300\<newline>''"
    by (simp_all add: readReq_def neighWriteReq_def)
  note T = write_then_read [where n = "conntrackNode ''100''" and css = cssFresh and p = 7
      and ?b1.0 = "''200\<newline>''" and ?k1.0 = 4 and ?n1.0 = "fst (snd ?W1)"
      and ?css1.0 = "snd (snd ?W1)" and q = 8 and m = "conntrackNode ''200''"
      and rbuf = "''........''" and ign = False and lo = minInt and hi = maxInt
      and gn = neighNode and gcss = cssFresh and ?wreq1.0 = "neighWriteReq ''300\<newline>''"
      and ?g1.0 = 4 and ?gn1.0 = "fst (snd ?G)" and wreq1' = "fst (snd (snd ?G))"
      and ?gcss1.0 = "snd (snd (snd ?G))" and rreq = "readReq 0" and gm = neighNode]
  from T w1 q m have
    "\<forall>nw pw b2 k2 n2 css2.
         io_name nw = io_name (conntrackNode ''100'') \<and> io_path nw = io_path (conntrackNode ''100'') \<and>
         ContainerLookupByPid cssFresh pw = ContainerLookupByPid cssFresh 7 \<and>
         NfConntrackMax_Write nw (snd (snd ?W1)) pw b2 = ((k2, None), n2, css2) \<longrightarrow>
           nfReturns (conntrackNode ''200'') css2 8 ''........'' (payload b2)"
    by blast
  from this [rule_format, of "fst (snd ?W1)" 7 "''150\<newline>''" 4 "fst (snd ?W2)" "snd (snd ?W2)"]
    nm w2
  have r2: "nfReturns (conntrackNode ''200'') (snd (snd ?W2)) 8 ''........'' ''150\<newline>''"
    by (simp add: p150)
  from T g rq have r3: "neighReturns False neighNode (readReq 0) (snd (snd (snd ?G))) ''300\<newline>''"
    by (simp add: p300)
  from r2 r3 rq e1 e2 e3 show ?thesis
    by (simp add: nfReturns_def neighReturns_def afterWrite_def copyResultBuffer_def)
qed

subsection \<open>Teardown of a fuse server\<close>

text \<open>
  C3, as amended. When destroy is invoked for a container whose server is registered and
  the server's Destroy step fails, destroy returns success and leaves the service and the
  host as they were: the entry stays in the server map and the mountpoint directory is
  not removed. \<open>DestroyFuseService\<close>, one call of destroy per registered container,
  returns with that server still registered.
\<close>

theorem destroy_failure_keeps_entry:
  assumes "map_of (servers fss) cntrId = Some srv"
      and "\<not> fst (srv_Destroy h srv)"
  shows "DestroyFuseServer fss h cntrId = (None, fss, h) \<and>
         map_of (servers (fst (DestroyFuseService fss h))) cntrId = Some srv"
proof -
  have f: "destroyFails h (srv_mountPoint srv)"
    using assms(2) by (simp add: srv_Destroy_def split: if_splits)
  have one: "DestroyFuseServer fss h cntrId = (None, fss, h)"
    using assms(1) f by (simp add: DestroyFuseServer_def srv_Destroy_def)
  obtain fss' h' where r: "foldl destroyStep (fss, h) (map fst (servers fss)) = (fss', h')"
    by (cases "foldl destroyStep (fss, h) (map fst (servers fss))") auto
  from destroy_fold_keeps [OF assms(1) f r] r one show ?thesis
    by (simp add: DestroyFuseService_def)
qed

text \<open>The witness: the service holding \<open>c1\<close> on a host where the teardown fails.\<close>

theorem destroy_failure_keeps_entry_witness:
  "map_of (servers fssC1) ''c1'' = Some srvC1 \<and>
   \<not> fst (srv_Destroy hostFailing srvC1) \<and>
   DestroyFuseServer fssC1 hostFailing ''c1'' = (None, fssC1, hostFailing) \<and>
   map_of (servers (fst (DestroyFuseService fssC1 hostFailing))) ''c1'' = Some srvC1"
proof -
  have a: "map_of (servers fssC1) ''c1'' = Some srvC1"
    by (simp add: fssC1_def)
  have b: "\<not> fst (srv_Destroy hostFailing srvC1)"
    by (simp add: srv_Destroy_def hostFailing_def)
  from destroy_failure_keeps_entry [OF a b] a b show ?thesis
    by simp
qed

text \<open>
  The claim as stated fails there: the Destroy step fails, and the entry of \<open>c1\<close> is
  still in the server map after destroy and after \<open>DestroyFuseService\<close>.
\<close>

theorem destroy_failure_counterexample:
  "\<not> fst (srv_Destroy hostFailing srvC1) \<and>
   map_of (servers (fst (snd (DestroyFuseServer fssC1 hostFailing ''c1'')))) ''c1'' \<noteq> None \<and>
   map_of (servers (fst (DestroyFuseService fssC1 hostFailing))) ''c1'' \<noteq> None"
  by (simp add: DestroyFuseService_def destroyStep_def DestroyFuseServer_def srv_Destroy_def
        fssC1_def srvC1_def hostFailing_def)

subsection \<open>Failure of create\<close>

text \<open>
  C4, as amended. When create fails, the server map is left as it was: no entry is
  inserted. Nothing that create acquired is released: no directory is removed from the
  disk, and after an initialisation failure the mountpoint directory that create made is
  on disk.
\<close>

theorem create_failure:
  "CreateFuseServer fss h cntrId = (Some e, fss', h') \<Longrightarrow>
   fss' = fss \<and> dirs h \<subseteq> dirs h' \<and>
   (e = InitFailure \<longrightarrow> Join (fss_mountPoint fss) cntrId \<in> dirs h')"
proof -
  assume a: "CreateFuseServer fss h cntrId = (Some e, fss', h')"
  let ?mp = "Join (fss_mountPoint fss) cntrId"
  obtain b h1 where mk: "MkdirAll h ?mp 0x180 = (b, h1)"
    by (cases "MkdirAll h ?mp 0x180") auto
  have keep: "dirs h \<subseteq> dirs h1"
    using MkdirAll_keeps [OF mk] by simp
  show ?thesis
  proof (cases "map_of (servers fss) cntrId \<noteq> None")
    case True
    with a show ?thesis by (auto simp: CreateFuseServer_def)
  next
    case False
    show ?thesis
    proof (cases b)
      case False
      with a \<open>\<not> map_of (servers fss) cntrId \<noteq> None\<close> mk keep show ?thesis
        by (auto simp: CreateFuseServer_def Let_def)
    next
      case True
      with mk have "MkdirAll h ?mp 0x180 = (True, h1)"
        by simp
      then have made: "?mp \<in> dirs h1"
        by (rule MkdirAll_made)
      from a \<open>\<not> map_of (servers fss) cntrId \<noteq> None\<close> mk True keep made show ?thesis
        by (auto simp: CreateFuseServer_def Let_def srv_Init_def split: if_splits)
    qed
  qed
qed

text \<open>The witness: create for \<open>c2\<close> on a host where the initialisation fails.\<close>

theorem create_failure_witness:
  "fst (CreateFuseServer fssC1 hostFailing ''c2'') = Some InitFailure \<and>
   fst (snd (CreateFuseServer fssC1 hostFailing ''c2'')) = fssC1 \<and>
   Join (fss_mountPoint fssC1) ''c2'' \<in> dirs (snd (snd (CreateFuseServer fssC1 hostFailing ''c2'')))"
proof -
  let ?C = "CreateFuseServer fssC1 hostFailing ''c2''"
  have e: "fst ?C = Some InitFailure"
    by (simp add: CreateFuseServer_def MkdirAll_c2 srv_Init_def fssC1_def Join_c2)
       (simp add: hostFailing_def)
  then have c: "?C = (Some InitFailure, fst (snd ?C), snd (snd ?C))"
    by (metis prod.collapse)
  from create_failure [OF c] e show ?thesis
    by simp
qed

text \<open>
  The claim as stated fails there: the mountpoint directory of \<open>c2\<close> was not on disk
  before the failed create and is on disk after it.
\<close>

theorem create_failure_counterexample:
  "fst (CreateFuseServer fssC1 hostFailing ''c2'') = Some InitFailure \<and>
   ''/var/lib/sysboxfs/c2'' \<notin> dirs hostFailing \<and>
   ''/var/lib/sysboxfs/c2'' \<in> dirs (snd (snd (CreateFuseServer fssC1 hostFailing ''c2'')))"
  by (simp add: CreateFuseServer_def MkdirAll_c2 srv_Init_def fssC1_def Join_c2)
     (simp add: hostFailing_def)

subsection \<open>The host-passthrough handlers\<close>

text \<open>
  C5, as amended. For the meminfo and cpuinfo handlers every write request leaves the
  node, the request and the container state as they were and returns the byte count 0
  with no error, whatever the buffer holds. A meminfo read returns what the host I/O
  service read into the request buffer: on an error other than end of file the count 0
  and that error, otherwise the count and the buffer cut to the count. A cpuinfo read
  returns 0 bytes and leaves the buffer alone.
\<close>

theorem passthrough_write_read:
  "ProcMeminfo_Write n req css = ((0, None), n, req, css) \<and>
   ProcCpuinfo_Write n p buf css = ((0, None), n, css) \<and>
   (readNode n (req_Data req) = (len, err, data) \<longrightarrow>
      (err = None \<or> err = Some EOF) \<longrightarrow> len \<le> length data \<longrightarrow>
      ProcMeminfo_Read readNode n req =
        ((len, None),
         req\<lparr>req_Data := take len data, req_Spare := drop len data @ req_Spare req\<rparr>)) \<and>
   (readNode n (req_Data req) = (len, err, data) \<longrightarrow>
      err \<noteq> None \<longrightarrow> err \<noteq> Some EOF \<longrightarrow>
      ProcMeminfo_Read readNode n req = ((0, err), req\<lparr>req_Data := data\<rparr>)) \<and>
   fst (ProcCpuinfo_Read n p buf off) = (0, if off > 0 then Some EOF else None) \<and>
   fst (snd (ProcCpuinfo_Read n p buf off)) = buf"
  by (auto simp: ProcMeminfo_Write_def ProcCpuinfo_Write_def ProcMeminfo_Read_def
        ProcCpuinfo_Read_def)

text \<open>
  The witness: a write of one byte, and a read for which the host I/O service delivers
  three bytes.
\<close>

theorem passthrough_write_read_witness:
  "ProcMeminfo_Write meminfoNode writeReq cssFresh = ((0, None), meminfoNode, writeReq, cssFresh) \<and>
   fst (ProcMeminfo_Read (\<lambda>n b. (3, None, ''Mem'' @ drop 3 b)) meminfoNode (readReq 0)) = (3, None) \<and>
   req_Data (snd (ProcMeminfo_Read (\<lambda>n b. (3, None, ''Mem'' @ drop 3 b)) meminfoNode (readReq 0))) =
     ''Mem''"
  using passthrough_write_read [of meminfoNode writeReq cssFresh 7 "''1''"
      "\<lambda>n b. (3, None, ''Mem'' @ drop 3 b)" 3 None "''Mem''" 0]
    passthrough_write_read [of meminfoNode "readReq 0" cssFresh 7 "''1''"
      "\<lambda>n b. (3, None, ''Mem'' @ drop 3 b)" 3 None "''Mem.....''" 0]
  by (simp add: readReq_def)

text \<open>
  The claim as stated fails on a write of one byte: both handlers return the count 0,
  not the length of the buffer.
\<close>

theorem passthrough_write_counterexample:
  "fst (fst (ProcMeminfo_Write meminfoNode writeReq cssFresh)) \<noteq> length (req_Data writeReq) \<and>
   fst (fst (ProcCpuinfo_Write meminfoNode 7 ''1'' cssFresh)) \<noteq> length ''1''"
  by (simp add: ProcMeminfo_Write_def ProcCpuinfo_Write_def writeReq_def)

subsection \<open>Open of \<open>nf_conntrack_max\<close>\<close>

text \<open>
  C6. An open of \<open>nf_conntrack_max\<close> with flags that are neither read-only nor
  write-only fails with \<open>EACCES\<close> and leaves the node alone. With write-only flags the
  node's flags are set to read-write before the host open, and stay so. With read-only
  or write-only flags the open fails with \<open>EIO\<close> when the host open fails, and succeeds
  otherwise.
\<close>

theorem Open_flags:
  "(OpenFlags n \<noteq> O_RDONLY \<and> OpenFlags n \<noteq> O_WRONLY \<longrightarrow>
      NfConntrackMax_Open n = (Some (IOerror EACCES), n)) \<and>
   (OpenFlags n = O_WRONLY \<longrightarrow>
      NfConntrackMax_Open n =
        (case io_Open (SetOpenFlags n O_RDWR) of
           (Some e, n2) \<Rightarrow> (Some (IOerror EIO), n2)
         | (None, n2) \<Rightarrow> (None, n2)) \<and>
      OpenFlags (snd (NfConntrackMax_Open n)) = O_RDWR) \<and>
   (OpenFlags n = O_RDONLY \<longrightarrow>
      NfConntrackMax_Open n =
        (case io_Open n of
           (Some e, n2) \<Rightarrow> (Some (IOerror EIO), n2)
         | (None, n2) \<Rightarrow> (None, n2))) \<and>
   (OpenFlags n = O_RDONLY \<or> OpenFlags n = O_WRONLY \<longrightarrow>
      fst (NfConntrackMax_Open n) = (if open_fails n then Some (IOerror EIO) else None))"
  by (auto simp: NfConntrackMax_Open_def Let_def io_Open_def OpenFlags_def SetOpenFlags_def
        O_RDONLY_def O_WRONLY_def O_RDWR_def split: prod.splits option.splits)

text \<open>
  The witness: a write-only open that succeeds, a read-write open, and a read-only open
  on a node whose host open fails.
\<close>

theorem Open_flags_witness:
  "NfConntrackMax_Open ((conntrackNode ''100'')\<lparr>io_flags := O_WRONLY\<rparr>) =
     (None, (conntrackNode ''100'')\<lparr>io_flags := O_RDWR\<rparr>) \<and>
   NfConntrackMax_Open ((conntrackNode ''100'')\<lparr>io_flags := O_RDWR\<rparr>) =
     (Some (IOerror EACCES), (conntrackNode ''100'')\<lparr>io_flags := O_RDWR\<rparr>) \<and>
   fst (NfConntrackMax_Open ((conntrackNode ''100'')\<lparr>open_fails := True\<rparr>)) =
     Some (IOerror EIO)"
  using Open_flags [of "(conntrackNode ''100'')\<lparr>io_flags := O_WRONLY\<rparr>"]
    Open_flags [of "(conntrackNode ''100'')\<lparr>io_flags := O_RDWR\<rparr>"]
    Open_flags [of "(conntrackNode ''100'')\<lparr>open_fails := True\<rparr>"]
  by (simp add: conntrackNode_def OpenFlags_def SetOpenFlags_def io_Open_def
        O_RDONLY_def O_WRONLY_def O_RDWR_def)

subsection \<open>Failure of the push to the host\<close>

text \<open>
  C7. At a write of \<open>900\<close> by a container with \<open>500\<close> cached, over a host value of
  \<open>100\<close> on a node whose host write fails, the push fails with the host's error and
  \<open>Write\<close> returns \<open>io.EOF\<close>, not an \<open>EIO\<close> error; the same write by a container
  with nothing cached returns the host's error itself.
\<close>

theorem push_failure_returns_EOF:
  "fst (PushFile ((conntrackNode ''100'')\<lparr>write_fails := True\<rparr>) 900) = Some HostError \<and>
   fst (NfConntrackMax_Write ((conntrackNode ''100'')\<lparr>write_fails := True\<rparr>)
          (cssCached ''500'') 7 ''900'') = (0, Some EOF) \<and>
   fst (NfConntrackMax_Write ((conntrackNode ''100'')\<lparr>write_fails := True\<rparr>)
          cssFresh 7 ''900'') = (0, Some HostError) \<and>
   EOF \<noteq> IOerror EIO"
  by (simp add: nf_eval go_eval)

subsection \<open>Reads past the start\<close>

text \<open>
  C8. A read of \<open>nf_conntrack_max\<close> or of a \<open>neigh\<close> node at an offset above 0 returns
  0 bytes and \<open>EOF\<close> and changes nothing, whatever the caller, the container state, the
  host file, the service's flag and the helper behind the \<open>neigh\<close> read are.
\<close>

theorem Read_offset_EOF:
  "(0 < off \<longrightarrow> NfConntrackMax_Read n css p buf off = ((0, Some EOF), buf, n, css)) \<and>
   (0 < req_Offset req \<longrightarrow>
      ProcSysNetIpv4Neigh_Read ignoreErrors readFileInt m req css = ((0, Some EOF), m, req, css))"
  by (simp add: NfConntrackMax_Read_def ProcSysNetIpv4Neigh_Read_def)

text \<open>The witness: reads at the offsets 1 and 5.\<close>

theorem Read_offset_EOF_witness:
  "NfConntrackMax_Read (conntrackNode ''100'') (cssCached ''500'') 7 ''........'' 1 =
     ((0, Some EOF), ''........'', conntrackNode ''100'', cssCached ''500'') \<and>
   ProcSysNetIpv4Neigh_Read False (\<lambda>n r c. ((4, None), n, r, c)) (conntrackNode ''100'')
       (readReq 5) (cssCached ''500'') =
     ((0, Some EOF), conntrackNode ''100'', readReq 5, cssCached ''500'')"
  using Read_offset_EOF [of 1 "conntrackNode ''100''" "cssCached ''500''" 7 "''........''"
      "readReq 5" False "\<lambda>n r c. ((4, None), n, r, c)" "conntrackNode ''100''"]
  by (simp add: readReq_def)

subsection \<open>The dead branch of \<open>ReadDirAll\<close>\<close>

text \<open>
  C9. In the loop of the \<open>neigh\<close> handler's \<open>ReadDirAll\<close> the second branch never
  runs, for any relative path and any key; the loop body appends the entry of the first
  branch exactly when the relative path is the directory of the key, and the loop emits
  these entries for the keys whose directory is the relative path, in the order of the
  range.
\<close>

theorem second_branch_dead:
  "branchOf relpath k \<noteq> SecondBranch \<and>
   emuBody relpath now fileEntries k =
     (if relpath = Dir k
      then fileEntries @ [\<lparr>Fname = Base k, Fmode = ModeDir, FmodTime = now, FisDir = True\<rparr>]
      else fileEntries) \<and>
   foldl (emuBody relpath now) [] ks =
     map (\<lambda>k. \<lparr>Fname = Base k, Fmode = ModeDir, FmodTime = now, FisDir = True\<rparr>)
       (filter (\<lambda>k. relpath = Dir k) ks)"
  by (simp add: emu_fold) (simp add: emuBody_def branchOf_def)

text \<open>The witness: the directory \<open>default\<close> of the handler's own table.\<close>

theorem second_branch_dead_witness:
  "branchOf ''default'' ''default/gc_thresh1'' = FirstBranch \<and>
   map Fname (foldl (emuBody ''default'' 0) [] (map fst EmuNodesMap)) =
     [''gc_thresh1'', ''gc_thresh2'', ''gc_thresh3'']"
  using second_branch_dead [of "''default''" "''default/gc_thresh1''" 0 "[]" "map fst EmuNodesMap"]
  by (simp add: EmuNodesMap_def branchOf_def path_eval)

subsection \<open>Failed writes and the cache\<close>

text \<open>
  C10. Whenever \<open>Write\<close> of \<open>nf_conntrack_max\<close> returns an error, the container state
  is the one before the call, so the entry of the resource in every container's map is
  unchanged, and the byte count is 0.
\<close>

theorem Write_error_keeps_cache:
  "NfConntrackMax_Write n css p buf = ((k, Some err), n', css') \<Longrightarrow>
   css' = css \<and> k = 0 \<and>
   (\<forall>cntr. Data css' cntr (io_path n) (io_name n) = Data css cntr (io_path n) (io_name n))"
  by (auto simp: NfConntrackMax_Write_def Let_def
        split: sum.splits option.splits prod.splits if_splits)

text \<open>
  The witness: a write of \<open>900\<close> whose push fails, by a container with \<open>500\<close> cached.
\<close>

theorem Write_error_keeps_cache_witness:
  "fst (NfConntrackMax_Write ((conntrackNode ''100'')\<lparr>write_fails := True\<rparr>)
          (cssCached ''500'') 7 ''900'') = (0, Some EOF) \<and>
   Data (snd (afterWrite ((conntrackNode ''100'')\<lparr>write_fails := True\<rparr>, cssCached ''500'') 7 ''900''))
     ''c1'' ''/proc/sys/net/netfilter/nf_conntrack_max'' ''nf_conntrack_max'' = Some ''500''"
proof -
  let ?n = "(conntrackNode ''100'')\<lparr>write_fails := True\<rparr>"
  let ?W = "NfConntrackMax_Write ?n (cssCached ''500'') 7 ''900''"
  have e: "fst ?W = (0, Some EOF)"
    by (simp add: nf_eval go_eval)
  then have w: "?W = ((0, Some EOF), fst (snd ?W), snd (snd ?W))"
    by (metis prod.collapse)
  have d: "Data (cssCached ''500'') ''c1'' ''/proc/sys/net/netfilter/nf_conntrack_max''
             ''nf_conntrack_max'' = Some ''500''"
    by (simp add: nf_eval)
  from Write_error_keeps_cache [OF w] e d show ?thesis
    by (simp add: afterWrite_def)
qed

end
